theory Spec2Isabelle
  imports Complex_Main "HOL-Library.AList"
begin

section \<open>Python values\<close>

text \<open>
  The pipeline of \<^verbatim>\<open>backend-v2\<close> passes dynamically typed values around: the result of
  \<^verbatim>\<open>json.loads\<close>, the dictionary built by \<^verbatim>\<open>parse_refract_message\<close>, the
  \<^verbatim>\<open>order_data\<close> dictionary and the attributes of an \<^verbatim>\<open>Order\<close> row. They are
  modelled by one datatype. A dictionary is an association list in insertion order with
  distinct keys. A \<^verbatim>\<open>datetime\<close> is a reading of the clock, a natural number. A float is
  modelled by the rational number it stands for: the pipeline only parses decimal
  literals, tests floats for zero and compares them for equality.
\<close>

type_synonym datetime = nat

datatype pyval =
    PNone
  | PBool bool
  | PInt int
  | PFloat rat
  | PStr string
  | PList "pyval list"
  | PDict "(string \<times> pyval) list"
  | PDatetime datetime

text \<open>
  The exceptions that the modelled code raises, by their class; the message is left out.
  \<^verbatim>\<open>JSONDecodeError\<close> is a \<^verbatim>\<open>ValueError\<close>.
\<close>

datatype exn =
    ValueError
  | TypeError
  | KeyError
  | ValidationError
  | MultipleResultsFound

text \<open>
  \<^verbatim>\<open>a == b\<close> on the values that the pipeline compares (\<open>None\<close>, strings, numbers and
  datetimes): numbers are compared by value, so that \<^verbatim>\<open>1 == 1.0\<close> and \<^verbatim>\<open>True == 1\<close>;
  anything else is equal to itself only.
\<close>

definition num_of :: "pyval \<Rightarrow> rat option" where
  "num_of v =
     (case v of
        PBool b \<Rightarrow> Some (if b then 1 else 0)
      | PInt i \<Rightarrow> Some (of_int i)
      | PFloat x \<Rightarrow> Some x
      | _ \<Rightarrow> None)"

definition py_eq :: "pyval \<Rightarrow> pyval \<Rightarrow> bool" where
  "py_eq a b =
     (case (num_of a, num_of b) of
        (Some x, Some y) \<Rightarrow> x = y
      | _ \<Rightarrow> a = b)"

section \<open>The webhook queue (services/webhook\_queue.py)\<close>

text \<open>
  \<^verbatim>\<open>webhook_data\<close> is the dictionary that the receiver enqueues; the worker reads it with
  \<^verbatim>\<open>webhook_data.get("body", "")\<close> and \<^verbatim>\<open>webhook_data.get("content_type", "")\<close>, so both keys
  may be missing.
\<close>

record webhook_data =
  body :: "string option"
  content_type :: "string option"

text \<open>
  A queued message is the dictionary built by \<^verbatim>\<open>enqueue\<close>. The dead-letter entry is
  \<^verbatim>\<open>{**message, "failed_at": ..., "error": str(e)}\<close>: the same dictionary with two more
  keys, which are absent (\<open>None\<close>) before. \<^verbatim>\<open>message_id\<close> is
  \<^verbatim>\<open>f"{timestamp}_{total_received}"\<close>, kept as the pair it is printed from.
\<close>

record message =
  data :: webhook_data
  received_at :: datetime
  retry_count :: int
  message_id :: "datetime \<times> int"
  failed_at :: "datetime option"
  error :: "string option"

record webhook_queue =
  queue :: "message list"
  dead_letter_queue :: "message list"
  max_retries :: int
  is_running :: bool
  total_received :: int
  total_processed :: int
  total_failed :: int
  queue_size_peak :: int
  processing_times :: "int list"

text \<open>
  \<^verbatim>\<open>xs[start:]\<close> on a list: a negative start counts from the end, and both are clamped to
  the list.
\<close>

definition slice_from :: "int \<Rightarrow> 'a list \<Rightarrow> 'a list" where
  "slice_from start xs =
     (let n = int (length xs);
          i = (if start < 0 then max (n + start) 0 else min start n)
      in drop (nat i) xs)"

text \<open>\<^verbatim>\<open>return list(self.dead_letter_queue)[-limit:]\<close>\<close>

definition get_dead_letters :: "webhook_queue \<Rightarrow> int \<Rightarrow> message list" where
  "get_dead_letters s limit = slice_from (- limit) (dead_letter_queue s)"

text \<open>
  \<^verbatim>\<open>deque(maxlen=n).append(x)\<close>: when the deque is full the oldest entry, on the left, is
  dropped.
\<close>

definition deque_append :: "nat \<Rightarrow> 'a \<Rightarrow> 'a list \<Rightarrow> 'a list" where
  "deque_append maxlen x xs =
     (if maxlen = 0 then []
      else if length xs \<ge> maxlen then drop (Suc (length xs - maxlen)) xs @ [x]
      else xs @ [x])"

text \<open>
  \<^verbatim>\<open>enqueue\<close>. The queue is \<^verbatim>\<open>asyncio.Queue(maxsize=10000)\<close>; the \<^verbatim>\<open>put\<close> is given one
  second, and in this model, where nothing else runs meanwhile, it times out exactly when
  the queue is full. The two arguments \<open>t_received\<close> and \<open>t_id\<close> are the two readings of
  \<^verbatim>\<open>datetime.utcnow()\<close>.
\<close>

definition enqueue ::
  "webhook_data \<Rightarrow> datetime \<Rightarrow> datetime \<Rightarrow> webhook_queue \<Rightarrow> bool \<times> webhook_queue" where
  "enqueue wd t_received t_id s =
     (let message = \<lparr>data = wd, received_at = t_received, retry_count = 0,
                      message_id = (t_id, total_received s), failed_at = None, error = None\<rparr>
      in if length (queue s) < 10000
         then (let s' = s\<lparr>queue := queue s @ [message], total_received := total_received s + 1\<rparr>;
                   current_size = int (length (queue s'))
               in (True, if current_size > queue_size_peak s'
                         then s'\<lparr>queue_size_peak := current_size\<rparr> else s'))
         else (False, s\<lparr>total_failed := total_failed s + 1\<rparr>))"

text \<open>
  The \<^verbatim>\<open>except Exception as e\<close> branch of \<^verbatim>\<open>_worker\<close>: the retry logic. \<open>e\<close> is
  \<^verbatim>\<open>str(e)\<close> and \<open>now\<close> the clock read for \<^verbatim>\<open>failed_at\<close>. The worker has just taken the
  message out of the queue, so the \<^verbatim>\<open>put\<close> finds room.
\<close>

definition handle_failure :: "datetime \<Rightarrow> string \<Rightarrow> message \<Rightarrow> webhook_queue \<Rightarrow> webhook_queue" where
  "handle_failure now e m s =
     (let m' = m\<lparr>retry_count := retry_count m + 1\<rparr>
      in if retry_count m' \<le> max_retries s
         then s\<lparr>queue := queue s @ [m']\<rparr>
         else s\<lparr>dead_letter_queue :=
                  deque_append 1000 (m'\<lparr>failed_at := Some now, error := Some e\<rparr>)
                    (dead_letter_queue s),
                total_failed := total_failed s + 1\<rparr>)"

text \<open>
  One turn of the \<^verbatim>\<open>while self.is_running\<close> loop of \<^verbatim>\<open>_worker\<close>, for one worker.
  \<open>process\<close> stands for \<^verbatim>\<open>_process_webhook\<close> on a store of type \<open>'db\<close>: \<open>Inl e\<close> when it
  raises an exception \<open>e\<close> with \<^verbatim>\<open>str(e) = e\<close>, \<open>Inr db'\<close> when it returns. An empty queue
  makes \<^verbatim>\<open>queue.get()\<close> time out and the loop continue. \<open>t_start\<close> and \<open>t_end\<close> are the two
  readings of the clock in the turn.
\<close>

definition worker_iteration ::
  "(message \<Rightarrow> 'db \<Rightarrow> string + 'db) \<Rightarrow> datetime \<Rightarrow> datetime
     \<Rightarrow> webhook_queue \<times> 'db \<Rightarrow> webhook_queue \<times> 'db" where
  "worker_iteration process t_start t_end sd =
     (case sd of (s, db) \<Rightarrow>
        (case queue s of
           [] \<Rightarrow> (s, db)
         | m # rest \<Rightarrow>
             (let s1 = s\<lparr>queue := rest\<rparr>
              in case process m db of
                   Inr db' \<Rightarrow>
                     (s1\<lparr>processing_times :=
                           deque_append 100 (int t_end - int t_start) (processing_times s1),
                         total_processed := total_processed s1 + 1\<rparr>, db')
                 | Inl e \<Rightarrow> (handle_failure t_end e m s1, db))))"

text \<open>
  The loop itself, one turn for each pair of clock readings in the list, as long as
  \<^verbatim>\<open>is_running\<close> holds.
\<close>

fun run_worker ::
  "(message \<Rightarrow> 'db \<Rightarrow> string + 'db) \<Rightarrow> (datetime \<times> datetime) list
     \<Rightarrow> webhook_queue \<times> 'db \<Rightarrow> webhook_queue \<times> 'db" where
  "run_worker process [] sd = sd"
| "run_worker process ((t_start, t_end) # ts) sd =
     (if is_running (fst sd)
      then run_worker process ts (worker_iteration process t_start t_end sd)
      else sd)"

text \<open>Processing of the message \<open>m\<close> raises at every attempt, whatever the store holds.\<close>

definition always_raises :: "(message \<Rightarrow> 'db \<Rightarrow> string + 'db) \<Rightarrow> message \<Rightarrow> bool" where
  "always_raises process m \<longleftrightarrow> (\<forall>rc db. isl (process (m\<lparr>retry_count := rc\<rparr>) db))"

text \<open>\<^verbatim>\<open>WebhookQueue.__init__\<close> (the fields of the model) and \<^verbatim>\<open>start\<close>.\<close>

definition WebhookQueue :: "int \<Rightarrow> webhook_queue" where
  "WebhookQueue mr =
     \<lparr>queue = [], dead_letter_queue = [], max_retries = mr, is_running = False,
      total_received = 0, total_processed = 0, total_failed = 0, queue_size_peak = 0,
      processing_times = []\<rparr>"

definition start :: "webhook_queue \<Rightarrow> webhook_queue" where
  "start s = s\<lparr>is_running := True\<rparr>"

text \<open>
  An envelope whose body is in no known format, and a \<open>process\<close> that raises the
  \<^verbatim>\<open>ValueError\<close> of \<^verbatim>\<open>parse_webhook_content\<close> at every attempt.
\<close>

definition unparsable :: webhook_data where
  "unparsable = \<lparr>body = Some ''garbage'', content_type = Some ''text/plain''\<rparr>"

definition failing_process :: "message \<Rightarrow> unit \<Rightarrow> string + unit" where
  "failing_process m db = Inl ''Could not parse webhook content as JSON or text format''"

text \<open>
  The wording of the specification for the dead-letter listing, to compare the code with:
  a listing is most recent first when it is an initial part of the dead-letter queue read
  from its newest entry (the right end, where \<^verbatim>\<open>append\<close> puts an entry) backwards.
\<close>

definition most_recent_first :: "message list \<Rightarrow> message list \<Rightarrow> bool" where
  "most_recent_first dlq listing \<longleftrightarrow> listing = take (length listing) (rev dlq)"

text \<open>Two dead-letter entries and a queue that holds them, the older one first.\<close>

definition dead_letter_1 :: message where
  "dead_letter_1 =
     \<lparr>data = \<lparr>body = Some ''a'', content_type = Some ''text/plain''\<rparr>, received_at = 1,
      retry_count = 4, message_id = (1, 0), failed_at = Some 5, error = Some ''boom''\<rparr>"

definition dead_letter_2 :: message where
  "dead_letter_2 =
     \<lparr>data = \<lparr>body = Some ''b'', content_type = Some ''text/plain''\<rparr>, received_at = 2,
      retry_count = 4, message_id = (2, 1), failed_at = Some 6, error = Some ''boom''\<rparr>"

definition two_dead_letters :: webhook_queue where
  "two_dead_letters =
     \<lparr>queue = [], dead_letter_queue = [dead_letter_1, dead_letter_2], max_retries = 3,
      is_running = True, total_received = 2, total_processed = 0, total_failed = 2,
      queue_size_peak = 2, processing_times = []\<rparr>"

section \<open>The upsert engine (services/order\_processor.py)\<close>

text \<open>
  \<^verbatim>\<open>WebhookPayload\<close> (database/schemas.py): one required field and the optional ones,
  each \<open>None\<close> when the payload does not carry it. The model has no validator, so a value
  is kept as it was given. Two fields are renamed, \<^verbatim>\<open>total\<close> to \<open>total_v\<close> and
  \<^verbatim>\<open>notes\<close> to \<open>notes_v\<close>, because Isabelle has taken these names.
\<close>

record webhook_payload =
  order_number :: string
  product :: "string option"
  product_name :: "string option"
  item :: "string option"
  price :: "rat option"
  unit_price :: "rat option"
  total_v :: "rat option"
  total_price :: "rat option"
  amount :: "rat option"
  commission :: "rat option"
  profit :: "rat option"
  quantity :: "int option"
  qty :: "int option"
  email :: "string option"
  customer_email :: "string option"
  customer_name :: "string option"
  name :: "string option"
  profile :: "string option"
  proxy_list :: "string option"
  proxy :: "string option"
  reference :: "string option"
  reference_number :: "string option"
  status :: "string option"
  order_status :: "string option"
  tracking :: "string option"
  tracking_number :: "string option"
  shipment_id :: "string option"
  order_date :: "datetime option"
  created_at :: "datetime option"
  date :: "datetime option"
  order_time :: "string option"
  payment_method :: "string option"
  shipping_address :: "string option"
  shipping_method :: "string option"
  notes_v :: "string option"

text \<open>
  Python's \<^verbatim>\<open>a or b\<close> on two optional fields: \<open>a\<close> when it is truthy, else \<open>b\<close>. \<open>None\<close>,
  the empty string and zero are falsy; a \<^verbatim>\<open>datetime\<close> is always truthy.
\<close>

definition py_or :: "('a \<Rightarrow> bool) \<Rightarrow> 'a option \<Rightarrow> 'a option \<Rightarrow> 'a option" where
  "py_or truthy a b = (case a of None \<Rightarrow> b | Some x \<Rightarrow> if truthy x then a else b)"

definition truthy_str :: "string \<Rightarrow> bool" where
  "truthy_str s \<longleftrightarrow> s \<noteq> []"

definition truthy_float :: "rat \<Rightarrow> bool" where
  "truthy_float x \<longleftrightarrow> x \<noteq> 0"

definition truthy_int :: "int \<Rightarrow> bool" where
  "truthy_int i \<longleftrightarrow> i \<noteq> 0"

definition truthy_datetime :: "datetime \<Rightarrow> bool" where
  "truthy_datetime t \<longleftrightarrow> True"

definition of_str :: "string option \<Rightarrow> pyval" where
  "of_str v = (case v of None \<Rightarrow> PNone | Some s \<Rightarrow> PStr s)"

definition of_float :: "rat option \<Rightarrow> pyval" where
  "of_float v = (case v of None \<Rightarrow> PNone | Some x \<Rightarrow> PFloat x)"

definition of_int_opt :: "int option \<Rightarrow> pyval" where
  "of_int_opt v = (case v of None \<Rightarrow> PNone | Some i \<Rightarrow> PInt i)"

definition of_datetime :: "datetime option \<Rightarrow> pyval" where
  "of_datetime v = (case v of None \<Rightarrow> PNone | Some t \<Rightarrow> PDatetime t)"

text \<open>
  \<^verbatim>\<open>str.lower()\<close> on a text of code points below 256, which is what a \<open>string\<close> of
  Isabelle holds: the letters A to Z and the capital letters of Latin-1 move up by 32.
\<close>

definition lower_char :: "char \<Rightarrow> char" where
  "lower_char c =
     (let n = (of_char c :: nat)
      in if (65 \<le> n \<and> n \<le> 90) \<or> (192 \<le> n \<and> n \<le> 222 \<and> n \<noteq> 215)
         then char_of (n + 32) else c)"

definition py_lower :: "string \<Rightarrow> string" where
  "py_lower s = map lower_char s"

text \<open>The \<^verbatim>\<open>status_map\<close> of \<^verbatim>\<open>_map_webhook_to_order\<close>, with \<^verbatim>\<open>.get(key, None)\<close>.\<close>

definition status_map :: "string \<Rightarrow> string option" where
  "status_map k =
     (if k \<in> set [''pending'', ''processing'', ''shipped'', ''delivered'', ''cancelled'',
                   ''refunded'', ''verified'', ''unverified'']
      then Some k else None)"

text \<open>
  \<^verbatim>\<open>_map_webhook_to_order\<close>. The result is the \<^verbatim>\<open>order_data\<close> dictionary, its keys in the
  order of the source. \<open>now\<close> is what \<^verbatim>\<open>datetime.utcnow()\<close> returns when the payload has no
  date of its own. \<^verbatim>\<open>DataSource.WEBHOOK\<close> is the string \<^verbatim>\<open>"webhook"\<close>.
\<close>

definition map_webhook_to_order :: "datetime \<Rightarrow> webhook_payload \<Rightarrow> (string \<times> pyval) list" where
  "map_webhook_to_order now payload =
     (let product_r = py_or truthy_str (product payload)
                       (py_or truthy_str (product_name payload)
                         (py_or truthy_str (item payload) (Some ''Unknown Product'')));
          price_r = py_or truthy_float (price payload)
                      (py_or truthy_float (unit_price payload) (Some 0));
          total_r = py_or truthy_float (total_v payload)
                      (py_or truthy_float (total_price payload) (amount payload));
          commission_r = py_or truthy_float (commission payload)
                           (py_or truthy_float (profit payload) (Some 0));
          quantity_r = py_or truthy_int (quantity payload)
                         (py_or truthy_int (qty payload) (Some 1));
          email_r = py_or truthy_str (email payload) (customer_email payload);
          customer_name_r = py_or truthy_str (customer_name payload) (name payload);
          proxy_list_r = py_or truthy_str (proxy_list payload) (proxy payload);
          reference_number_r = py_or truthy_str (reference payload) (reference_number payload);
          status_str = py_or truthy_str (status payload) (order_status payload);
          status_r = (case status_str of
                        None \<Rightarrow> None
                      | Some s \<Rightarrow> if truthy_str s then status_map (py_lower s) else None);
          tracking_number_r = py_or truthy_str (tracking payload)
                                (py_or truthy_str (tracking_number payload) (shipment_id payload));
          order_date_r = py_or truthy_datetime (order_date payload)
                           (py_or truthy_datetime (created_at payload)
                             (py_or truthy_datetime (date payload) (Some now)))
      in [(''order_number'', PStr (order_number payload)),
          (''product'', of_str product_r),
          (''price'', of_float price_r),
          (''total'', of_float total_r),
          (''commission'', of_float commission_r),
          (''quantity'', of_int_opt quantity_r),
          (''email'', of_str email_r),
          (''customer_name'', of_str customer_name_r),
          (''profile'', of_str (profile payload)),
          (''proxy_list'', of_str proxy_list_r),
          (''reference_number'', of_str reference_number_r),
          (''status'', of_str status_r),
          (''tracking_number'', of_str tracking_number_r),
          (''order_date'', of_datetime order_date_r),
          (''order_time'', of_str (order_time payload)),
          (''payment_method'', of_str (payment_method payload)),
          (''shipping_address'', of_str (shipping_address payload)),
          (''shipping_method'', of_str (shipping_method payload)),
          (''notes'', of_str (notes_v payload)),
          (''source'', PStr ''webhook'')])"

text \<open>
  An \<^verbatim>\<open>Order\<close> row: the primary key \<^verbatim>\<open>id\<close> (here \<open>id_v\<close>), given by the database when
  the row is flushed, and the columns that \<^verbatim>\<open>Order(**order_data)\<close> sets, read with
  \<^verbatim>\<open>getattr\<close> and written with \<^verbatim>\<open>setattr\<close>. The columns that this pipeline neither reads
  nor writes (\<^verbatim>\<open>qty_received\<close>, \<^verbatim>\<open>posted_date\<close>, \<^verbatim>\<open>created_at\<close>, \<^verbatim>\<open>updated_at\<close> and so
  on) are left out.
\<close>

record order =
  id_v :: int
  columns :: "(string \<times> pyval) list"

definition getattr :: "(string \<times> pyval) list \<Rightarrow> string \<Rightarrow> pyval" where
  "getattr attrs key = (case map_of attrs key of None \<Rightarrow> PNone | Some v \<Rightarrow> v)"

definition setattr :: "string \<Rightarrow> pyval \<Rightarrow> (string \<times> pyval) list \<Rightarrow> (string \<times> pyval) list" where
  "setattr key v attrs = AList.update key v attrs"

text \<open>
  An \<^verbatim>\<open>OrderEvent\<close> row. \<open>description\<close> holds the list of changes \<open>(key, old, new)\<close> that
  the description of an update is printed from (none for a creation), and
  \<open>event_metadata\<close> the payload that \<^verbatim>\<open>serialize_payload\<close> prints.
\<close>

record order_event =
  order_id :: int
  event_type :: string
  description :: "(string \<times> pyval \<times> pyval) list"
  event_metadata :: webhook_payload
  source :: string

record database =
  orders :: "order list"
  order_events :: "order_event list"

text \<open>
  \<^verbatim>\<open>_get_order_by_number\<close>: \<^verbatim>\<open>scalar_one_or_none()\<close> returns the only matching row, \<open>None\<close>
  when there is none, and raises when there are several.
\<close>

definition get_order_by_number :: "database \<Rightarrow> string \<Rightarrow> exn + order option" where
  "get_order_by_number db k =
     (case filter (\<lambda>row. getattr (columns row) ''order_number'' = PStr k) (orders db) of
        [] \<Rightarrow> Inr None
      | [row] \<Rightarrow> Inr (Some row)
      | _ \<Rightarrow> Inl MultipleResultsFound)"

text \<open>The key that the database gives the next row: one more than the largest so far.\<close>

definition next_id :: "database \<Rightarrow> int" where
  "next_id db = 1 + fold max (map id_v (orders db)) 0"

text \<open>\<^verbatim>\<open>_create_new_order\<close>: the row and its \<^verbatim>\<open>created\<close> event, committed together.\<close>

definition create_new_order ::
  "(string \<times> pyval) list \<Rightarrow> webhook_payload \<Rightarrow> database \<Rightarrow> order \<times> database" where
  "create_new_order order_data raw_payload db =
     (let row = \<lparr>id_v = next_id db, columns = order_data\<rparr>;
          event = \<lparr>order_id = id_v row, event_type = ''created'', description = [],
                   event_metadata = raw_payload, source = ''webhook''\<rparr>
      in (row, db\<lparr>orders := orders db @ [row], order_events := order_events db @ [event]\<rparr>))"

text \<open>
  The loop of \<^verbatim>\<open>_update_existing_order\<close> over \<^verbatim>\<open>new_data.items()\<close>: the attributes of the
  row and the list \<^verbatim>\<open>changes\<close> are threaded through.
\<close>

fun update_fields ::
  "(string \<times> pyval) list \<Rightarrow> (string \<times> pyval) list \<Rightarrow> (string \<times> pyval \<times> pyval) list
     \<Rightarrow> (string \<times> pyval) list \<times> (string \<times> pyval \<times> pyval) list" where
  "update_fields [] attrs changes = (attrs, changes)"
| "update_fields ((key, v) # rest) attrs changes =
     (if key \<in> set [''order_number'', ''source''] then update_fields rest attrs changes
      else if v \<noteq> PNone then
        (let old_value = getattr attrs key
         in if \<not> py_eq old_value v
            then update_fields rest (setattr key v attrs) (changes @ [(key, old_value, v)])
            else update_fields rest attrs changes)
      else update_fields rest attrs changes)"

text \<open>
  \<^verbatim>\<open>_update_existing_order\<close>: the row with the primary key of \<open>row\<close> takes the new
  attributes, and an \<^verbatim>\<open>updated\<close> event is added when \<^verbatim>\<open>changes\<close> is not empty.
\<close>

definition update_existing_order ::
  "order \<Rightarrow> (string \<times> pyval) list \<Rightarrow> webhook_payload \<Rightarrow> database \<Rightarrow> order \<times> database" where
  "update_existing_order row new_data raw_payload db =
     (case update_fields new_data (columns row) [] of
        (attrs, changes) \<Rightarrow>
          (let row' = row\<lparr>columns := attrs\<rparr>;
               db1 = db\<lparr>orders := map (\<lambda>r. if id_v r = id_v row then row' else r) (orders db)\<rparr>;
               event = \<lparr>order_id = id_v row, event_type = ''updated'', description = changes,
                        event_metadata = raw_payload, source = ''webhook''\<rparr>
           in (row', if changes \<noteq> [] then db1\<lparr>order_events := order_events db1 @ [event]\<rparr>
                     else db1)))"

text \<open>\<^verbatim>\<open>create_order_from_webhook\<close>, the upsert. \<open>now\<close> is the reading of the clock.\<close>

definition create_order_from_webhook ::
  "datetime \<Rightarrow> webhook_payload \<Rightarrow> database \<Rightarrow> exn + order \<times> database" where
  "create_order_from_webhook now payload db =
     (let order_data = map_webhook_to_order now payload
      in case get_order_by_number db (order_number payload) of
           Inl e \<Rightarrow> Inl e
         | Inr (Some existing_order) \<Rightarrow>
             Inr (update_existing_order existing_order order_data payload db)
         | Inr None \<Rightarrow> Inr (create_new_order order_data payload db))"

text \<open>
  The constraints of the \<^verbatim>\<open>orders\<close> table (database/models.py): \<^verbatim>\<open>id\<close> is the primary key
  and \<^verbatim>\<open>order_number\<close> is \<^verbatim>\<open>unique\<close>.
\<close>

definition table_constraints :: "database \<Rightarrow> bool" where
  "table_constraints db \<longleftrightarrow>
     distinct (map id_v (orders db))
     \<and> distinct (map (\<lambda>row. getattr (columns row) ''order_number'') (orders db))"

definition empty_database :: database where
  "empty_database = \<lparr>orders = [], order_events = []\<rparr>"

text \<open>\<^verbatim>\<open>WebhookPayload(order_number=k)\<close>: every optional field at its default \<open>None\<close>.\<close>

definition WebhookPayload :: "string \<Rightarrow> webhook_payload" where
  "WebhookPayload k =
     \<lparr>order_number = k, product = None, product_name = None, item = None, price = None,
      unit_price = None, total_v = None, total_price = None, amount = None,
      commission = None, profit = None, quantity = None, qty = None, email = None,
      customer_email = None, customer_name = None, name = None, profile = None,
      proxy_list = None, proxy = None, reference = None, reference_number = None,
      status = None, order_status = None, tracking = None, tracking_number = None,
      shipment_id = None, order_date = None, created_at = None, date = None,
      order_time = None, payment_method = None, shipping_address = None,
      shipping_method = None, notes_v = None\<rparr>"

text \<open>
  The wording of the specification for alias resolution, to compare the code with.
  \<open>first_non_null\<close> scans an alias list and takes the first value that is present.
  \<open>first_truthy\<close> takes the first value that is present and truthy, and the fallback
  (the last alias, or a literal default) when there is none.
\<close>

fun first_non_null :: "'a option list \<Rightarrow> 'a option" where
  "first_non_null [] = None"
| "first_non_null (None # aliases) = first_non_null aliases"
| "first_non_null (Some x # aliases) = Some x"

fun first_truthy :: "('a \<Rightarrow> bool) \<Rightarrow> 'a option list \<Rightarrow> 'a option \<Rightarrow> 'a option" where
  "first_truthy truthy [] fallback = fallback"
| "first_truthy truthy (None # aliases) fallback = first_truthy truthy aliases fallback"
| "first_truthy truthy (Some x # aliases) fallback =
     (if truthy x then Some x else first_truthy truthy aliases fallback)"

text \<open>Payloads for the examples below.\<close>

definition two_trackings :: webhook_payload where
  "two_trackings = (WebhookPayload ''A1'')
     \<lparr>tracking := Some ''T-alias'', tracking_number := Some ''T-canonical''\<rparr>"

definition zero_price :: webhook_payload where
  "zero_price = (WebhookPayload ''A1'')
     \<lparr>price := Some 0, unit_price := Some 5, quantity := Some 0\<rparr>"

text \<open>
  \<^verbatim>\<open>round(x, ndigits)\<close> on a float, on the rational number it stands for: to the nearest
  multiple of \<open>10 ^ - ndigits\<close>, a tie going to the even one. \<^verbatim>\<open>OrderBase.round_currency\<close>
  (database/schemas.py) is the validator of \<^verbatim>\<open>price\<close>, \<^verbatim>\<open>total\<close> and \<^verbatim>\<open>commission\<close> in
  \<^verbatim>\<open>OrderBase\<close>, \<^verbatim>\<open>OrderCreate\<close> and \<^verbatim>\<open>OrderResponse\<close>; \<^verbatim>\<open>WebhookPayload\<close> does not have it.
\<close>

definition py_round :: "rat \<Rightarrow> nat \<Rightarrow> rat" where
  "py_round x ndigits =
     (let y = x * 10 ^ ndigits;
          f = \<lfloor>y\<rfloor>;
          d = y - of_int f;
          n = (if d < 1 / 2 then f else if 1 / 2 < d then f + 1
               else if even f then f else f + 1)
      in of_int n / 10 ^ ndigits)"

definition round_currency :: "rat option \<Rightarrow> rat option" where
  "round_currency v = (case v of None \<Rightarrow> None | Some x \<Rightarrow> Some (py_round x 2))"

definition unrounded_price :: webhook_payload where
  "unrounded_price = (WebhookPayload ''A1'')\<lparr>price := Some (9999 / 1000)\<rparr>"

definition dated :: webhook_payload where
  "dated = (WebhookPayload ''A1'')\<lparr>product := Some ''Shoes'', order_date := Some 50\<rparr>"

text \<open>
  What an application of the upsert with the dictionary \<open>nd\<close> leaves in the attributes
  of the row: every entry of \<open>nd\<close> that the update loop looks at is equal to the stored
  value.
\<close>

definition settled :: "(string \<times> pyval) list \<Rightarrow> (string \<times> pyval) list \<Rightarrow> bool" where
  "settled nd attrs \<longleftrightarrow>
     (\<forall>(key, v) \<in> set nd. key \<in> set [''order_number'', ''source''] \<or> v = PNone
         \<or> py_eq (getattr attrs key) v)"

section \<open>The content normalizer (services/webhook\_parser.py)\<close>

text \<open>
  A text is a \<open>string\<close>, a list of characters with code points below 256. On such a text
  \<^verbatim>\<open>\d\<close> is one of the ten digits, and \<^verbatim>\<open>re.IGNORECASE\<close> makes a letter of a pattern match
  its capital and its small form.
\<close>

definition newline :: char where
  "newline = CHR 0x0A"

definition is_digit :: "char \<Rightarrow> bool" where
  "is_digit c \<longleftrightarrow> c \<in> set ''0123456789''"

definition is_digit_or_comma :: "char \<Rightarrow> bool" where
  "is_digit_or_comma c \<longleftrightarrow> is_digit c \<or> c = CHR '',''"

text \<open>\<^verbatim>\<open>str.isspace\<close> below 256: what \<^verbatim>\<open>strip()\<close> removes.\<close>

definition is_space :: "char \<Rightarrow> bool" where
  "is_space c =
     (let n = (of_char c :: nat)
      in (9 \<le> n \<and> n \<le> 13) \<or> (28 \<le> n \<and> n \<le> 32) \<or> n = 133 \<or> n = 160)"

definition py_strip :: "string \<Rightarrow> string" where
  "py_strip s = rev (dropWhile is_space (rev (dropWhile is_space s)))"

text \<open>
  The literal \<open>pat\<close> of a pattern, matched at the start of the text without regard to
  case: the rest of the text after it.
\<close>

fun ci_prefix :: "string \<Rightarrow> string \<Rightarrow> string option" where
  "ci_prefix [] s = Some s"
| "ci_prefix (p # ps) [] = None"
| "ci_prefix (p # ps) (c # cs) =
     (if lower_char c = lower_char p then ci_prefix ps cs else None)"

text \<open>
  \<^verbatim>\<open>re.search\<close>: the match at the leftmost position of the text where the pattern, given
  as a function that matches at the start of a text, matches.
\<close>

fun search :: "(string \<Rightarrow> 'a option) \<Rightarrow> string \<Rightarrow> 'a option" where
  "search m [] = m []"
| "search m (c # cs) = (case m (c # cs) of Some r \<Rightarrow> Some r | None \<Rightarrow> search m cs)"

text \<open>
  \<^verbatim>\<open>(?:L1|L2|...)\n(.*?)(?:\n|$)\<close>: one of the labels, in their order, then a newline; the
  group is the rest of the line. An optional part of a label, as in
  \<^verbatim>\<open>Tracking(?: Number)?\<close>, is the longer label before the shorter one.
\<close>

fun after_label :: "string list \<Rightarrow> string \<Rightarrow> string option" where
  "after_label [] s = None"
| "after_label (l # ls) s =
     (case ci_prefix (l @ [newline]) s of Some rest \<Rightarrow> Some rest | None \<Rightarrow> after_label ls s)"

definition line_match :: "string list \<Rightarrow> string \<Rightarrow> string option" where
  "line_match labels s = map_option (takeWhile (\<lambda>c. c \<noteq> newline)) (after_label labels s)"

text \<open>\<^verbatim>\<open>Order Number\n#?(.*?)(?:\n|$)\<close>\<close>

definition order_number_match :: "string \<Rightarrow> string option" where
  "order_number_match s =
     (case ci_prefix (''Order Number'' @ [newline]) s of
        None \<Rightarrow> None
      | Some rest \<Rightarrow>
          Some (takeWhile (\<lambda>c. c \<noteq> newline)
                  (case rest of [] \<Rightarrow> [] | c # r \<Rightarrow> if c = CHR ''#'' then r else rest)))"

text \<open>
  \<^verbatim>\<open>Label\n\$?([\d,]+\.?\d*)\<close>: after the label and an optional dollar sign, at least one
  digit or comma; the group goes on through a point and the digits after it.
\<close>

definition amount_match :: "string \<Rightarrow> string \<Rightarrow> string option" where
  "amount_match label s =
     (case ci_prefix (label @ [newline]) s of
        None \<Rightarrow> None
      | Some rest \<Rightarrow>
          (let r1 = (case rest of [] \<Rightarrow> [] | c # r \<Rightarrow> if c = CHR ''$'' then r else rest);
               whole = takeWhile is_digit_or_comma r1;
               r2 = dropWhile is_digit_or_comma r1
           in if whole = [] then None
              else Some (whole @ (case r2 of [] \<Rightarrow> []
                                  | c # r3 \<Rightarrow> if c = CHR ''.''
                                             then c # takeWhile is_digit r3 else []))))"

text \<open>\<^verbatim>\<open>Quantity\n(\d+)\<close>\<close>

definition quantity_match :: "string \<Rightarrow> string option" where
  "quantity_match s =
     (case ci_prefix (''Quantity'' @ [newline]) s of
        None \<Rightarrow> None
      | Some rest \<Rightarrow>
          (let d = takeWhile is_digit rest in if d = [] then None else Some d))"

definition digits_value :: "string \<Rightarrow> nat" where
  "digits_value ds = foldl (\<lambda>n c. 10 * n + (of_char c - 48)) 0 ds"

text \<open>
  \<^verbatim>\<open>float(s)\<close> on what the amount pattern leaves once the commas are removed: digits, with
  at most one point among them. It raises \<^verbatim>\<open>ValueError\<close> when there is no digit at all.
  The float is the decimal number that is written.
\<close>

definition py_float :: "string \<Rightarrow> exn + rat" where
  "py_float s =
     (let whole = takeWhile is_digit s;
          r = dropWhile is_digit s;
          frac = (case r of [] \<Rightarrow> [] | c # f \<Rightarrow> f);
          shape = (case r of [] \<Rightarrow> True | c # f \<Rightarrow> c = CHR ''.'' \<and> list_all is_digit f)
      in if shape \<and> (whole \<noteq> [] \<or> frac \<noteq> [])
         then Inr (of_nat (digits_value whole) + of_nat (digits_value frac) / 10 ^ length frac)
         else Inl ValueError)"

text \<open>
  \<^verbatim>\<open>int(s)\<close> on a text of digits: Python refuses a text of more than 4300 digits
  (\<^verbatim>\<open>sys.int_max_str_digits\<close>) with a \<^verbatim>\<open>ValueError\<close>.
\<close>

definition py_int :: "string \<Rightarrow> exn + int" where
  "py_int ds = (if 4300 < length ds then Inl ValueError else Inr (int (digits_value ds)))"

definition remove_commas :: "string \<Rightarrow> string" where
  "remove_commas s = filter (\<lambda>c. c \<noteq> CHR '','') s"

text \<open>Sequencing of steps that may raise.\<close>

definition and_then :: "exn + 'a \<Rightarrow> ('a \<Rightarrow> exn + 'b) \<Rightarrow> exn + 'b" where
  "and_then r f = (case r of Inl e \<Rightarrow> Inl e | Inr x \<Rightarrow> f x)"

text \<open>\<^verbatim>\<open>data[key] = v\<close> on a dictionary.\<close>

definition setitem :: "string \<Rightarrow> pyval \<Rightarrow> (string \<times> pyval) list \<Rightarrow> (string \<times> pyval) list" where
  "setitem key v d = AList.update key v d"

text \<open>\<^verbatim>\<open>if m: data[key] = m.group(1).strip()\<close>\<close>

definition set_line ::
  "string \<Rightarrow> string option \<Rightarrow> (string \<times> pyval) list \<Rightarrow> (string \<times> pyval) list" where
  "set_line key m d = (case m of None \<Rightarrow> d | Some g \<Rightarrow> setitem key (PStr (py_strip g)) d)"

text \<open>
  \<^verbatim>\<open>if m: data[key] = float(m.group(1).replace(',', ''))\<close>, for each of the keys given: the
  price is stored under \<^verbatim>\<open>price\<close> and \<^verbatim>\<open>total\<close>.
\<close>

definition set_amount ::
  "string list \<Rightarrow> string option \<Rightarrow> (string \<times> pyval) list \<Rightarrow> exn + (string \<times> pyval) list" where
  "set_amount keys m d =
     (case m of
        None \<Rightarrow> Inr d
      | Some g \<Rightarrow>
          and_then (py_float (remove_commas g))
            (\<lambda>x. Inr (fold (\<lambda>key. setitem key (PFloat x)) keys d)))"

text \<open>The \<^verbatim>\<open>status_map\<close> of \<^verbatim>\<open>parse_refract_message\<close>; it has no \<^verbatim>\<open>refunded\<close>.\<close>

definition text_status_map :: "string \<Rightarrow> pyval" where
  "text_status_map k =
     (if k \<in> set [''pending'', ''processing'', ''shipped'', ''delivered'', ''cancelled'',
                   ''verified'', ''unverified'']
      then PStr k else PNone)"

text \<open>
  \<^verbatim>\<open>now.strftime('%I:%M:%S %p')\<close>, the clock being read in microseconds from a midnight.
\<close>

definition two_digits :: "nat \<Rightarrow> string" where
  "two_digits n = [char_of (48 + n div 10 mod 10), char_of (48 + n mod 10)]"

definition strftime_time :: "datetime \<Rightarrow> string" where
  "strftime_time t =
     (let secs = t div 1000000 mod 86400;
          h = secs div 3600;
          h12 = (if h mod 12 = 0 then 12 else h mod 12)
      in two_digits h12 @ '':'' @ two_digits (secs div 60 mod 60) @ '':''
         @ two_digits (secs mod 60) @ (if h < 12 then '' AM'' else '' PM''))"

text \<open>\<^verbatim>\<open>parse_refract_message\<close>. \<open>now\<close> is the reading of the clock.\<close>

definition parse_refract_message :: "datetime \<Rightarrow> string \<Rightarrow> exn + (string \<times> pyval) list" where
  "parse_refract_message now text =
     and_then (Inr (set_line ''product'' (search (line_match [''Product'']) text) []))
     (\<lambda>d. and_then (set_amount [''price'', ''total''] (search (amount_match ''Price'') text) d)
     (\<lambda>d. and_then (Inr (set_line ''profile'' (search (line_match [''Profile'']) text) d))
     (\<lambda>d. and_then (Inr (set_line ''proxy_list''
               (search (line_match [''Proxy Details'', ''Proxy List'', ''Proxy'']) text) d))
     (\<lambda>d. and_then (Inr (case search order_number_match text of
                            None \<Rightarrow> d
                          | Some g \<Rightarrow>
                              setitem ''order_number''
                                (PStr (dropWhile (\<lambda>c. c = CHR ''#'') (py_strip g))) d))
     (\<lambda>d. and_then (Inr (set_line ''email'' (search (line_match [''Email'']) text) d))
     (\<lambda>d. and_then (case search quantity_match text of
                       None \<Rightarrow> Inr (setitem ''quantity'' (PInt 1) d)
                     | Some g \<Rightarrow>
                         and_then (py_int g) (\<lambda>n. Inr (setitem ''quantity'' (PInt n) d)))
     (\<lambda>d. and_then (set_amount [''total''] (search (amount_match ''Total'') text) d)
     (\<lambda>d. and_then (set_amount [''commission''] (search (amount_match ''Commission'') text) d)
     (\<lambda>d. and_then (Inr (set_line ''tracking_number''
               (search (line_match [''Tracking Number'', ''Tracking'']) text) d))
     (\<lambda>d. and_then (Inr (set_line ''reference_number''
               (search (line_match [''Reference #'', ''Reference'']) text) d))
     (\<lambda>d. and_then (Inr (case search (line_match [''Status'']) text of
                            None \<Rightarrow> d
                          | Some g \<Rightarrow>
                              setitem ''status'' (text_status_map (py_lower (py_strip g))) d))
     (\<lambda>d. and_then (Inr (set_line ''payment_method''
               (search (line_match [''Payment Method'', ''Payment'']) text) d))
     (\<lambda>d. and_then (Inr (set_line ''shipping_address''
               (search (line_match [''Shipping Address'']) text) d))
     (\<lambda>d. and_then (Inr (set_line ''shipping_method''
               (search (line_match [''Shipping Method'']) text) d))
     (\<lambda>d. Inr (setitem ''order_time'' (PStr (strftime_time now))
                 (setitem ''order_date'' (PDatetime now) d)))))))))))))))))"

text \<open>\<^verbatim>\<open>sub in s\<close> on two texts, and \<^verbatim>\<open>is_text_webhook\<close>.\<close>

fun starts_with :: "string \<Rightarrow> string \<Rightarrow> bool" where
  "starts_with [] s = True"
| "starts_with (p # ps) [] = False"
| "starts_with (p # ps) (c # cs) = (p = c \<and> starts_with ps cs)"

fun contains :: "string \<Rightarrow> string \<Rightarrow> bool" where
  "contains sub [] = (sub = [])"
| "contains sub (c # cs) = (starts_with sub (c # cs) \<or> contains sub cs)"

definition is_text_webhook :: "string \<Rightarrow> bool" where
  "is_text_webhook content =
     list_ex (\<lambda>indicator. contains indicator content)
       [''Successful Checkout'', ''Product'' @ [newline], ''Price'' @ [newline],
        ''Order Number'' @ [newline], ''Email'' @ [newline]]"

text \<open>
  The operations of Python that \<^verbatim>\<open>parse_discord_embed\<close> applies to whatever
  \<^verbatim>\<open>json.loads\<close> has returned: truth value, \<^verbatim>\<open>key in x\<close>, \<^verbatim>\<open>x[key]\<close> with the key a
  string, \<^verbatim>\<open>x[0]\<close> after \<^verbatim>\<open>len(x)\<close>, and iteration. On a value of the wrong type they
  raise.
\<close>

definition py_truthy :: "pyval \<Rightarrow> bool" where
  "py_truthy v =
     (case v of
        PNone \<Rightarrow> False
      | PBool b \<Rightarrow> b
      | PInt i \<Rightarrow> i \<noteq> 0
      | PFloat x \<Rightarrow> x \<noteq> 0
      | PStr s \<Rightarrow> s \<noteq> []
      | PList xs \<Rightarrow> xs \<noteq> []
      | PDict kvs \<Rightarrow> kvs \<noteq> []
      | PDatetime t \<Rightarrow> True)"

definition py_in :: "string \<Rightarrow> pyval \<Rightarrow> exn + bool" where
  "py_in key v =
     (case v of
        PDict kvs \<Rightarrow> Inr (key \<in> fst ` set kvs)
      | PStr s \<Rightarrow> Inr (contains key s)
      | PList xs \<Rightarrow> Inr (PStr key \<in> set xs)
      | _ \<Rightarrow> Inl TypeError)"

definition py_getitem :: "pyval \<Rightarrow> string \<Rightarrow> exn + pyval" where
  "py_getitem v key =
     (case v of
        PDict kvs \<Rightarrow> (case map_of kvs key of None \<Rightarrow> Inl KeyError | Some x \<Rightarrow> Inr x)
      | _ \<Rightarrow> Inl TypeError)"

definition py_first :: "pyval \<Rightarrow> exn + pyval" where
  "py_first v =
     (case v of
        PList xs \<Rightarrow> (case xs of [] \<Rightarrow> Inl ValueError | x # rest \<Rightarrow> Inr x)
      | PStr s \<Rightarrow> (case s of [] \<Rightarrow> Inl ValueError | c # rest \<Rightarrow> Inr (PStr [c]))
      | PDict kvs \<Rightarrow> (if kvs = [] then Inl ValueError else Inl KeyError)
      | _ \<Rightarrow> (if py_truthy v then Inl TypeError else Inl ValueError))"

definition py_iter :: "pyval \<Rightarrow> exn + pyval list" where
  "py_iter v =
     (case v of
        PList xs \<Rightarrow> Inr xs
      | PStr s \<Rightarrow> Inr (map (\<lambda>c. PStr [c]) s)
      | PDict kvs \<Rightarrow> Inr (map (\<lambda>kv. PStr (fst kv)) kvs)
      | _ \<Rightarrow> Inl TypeError)"

text \<open>\<^verbatim>\<open>if key in x: text_parts.append(x[key])\<close>\<close>

definition append_if_present :: "string \<Rightarrow> pyval \<Rightarrow> pyval list \<Rightarrow> exn + pyval list" where
  "append_if_present key x text_parts =
     and_then (py_in key x)
       (\<lambda>present. if present
                   then and_then (py_getitem x key) (\<lambda>v. Inr (text_parts @ [v]))
                   else Inr text_parts)"

text \<open>The loop over \<^verbatim>\<open>embed['fields']\<close>.\<close>

fun append_fields :: "pyval list \<Rightarrow> pyval list \<Rightarrow> exn + pyval list" where
  "append_fields [] text_parts = Inr text_parts"
| "append_fields (field # others) text_parts =
     and_then (append_if_present ''name'' field text_parts)
       (\<lambda>parts. and_then (append_if_present ''value'' field parts) (append_fields others))"

text \<open>\<^verbatim>\<open>'\n'.join(text_parts)\<close>, which wants every part to be a string.\<close>

fun join_lines :: "pyval list \<Rightarrow> exn + string" where
  "join_lines [] = Inr []"
| "join_lines [PStr s] = Inr s"
| "join_lines (PStr s # part # parts) =
     and_then (join_lines (part # parts)) (\<lambda>rest. Inr (s @ newline # rest))"
| "join_lines (other # parts) = Inl TypeError"

text \<open>\<^verbatim>\<open>parse_discord_embed\<close>\<close>

definition parse_discord_embed :: "datetime \<Rightarrow> pyval \<Rightarrow> exn + pyval" where
  "parse_discord_embed now payload =
     (case payload of
        PDict kvs \<Rightarrow>
          (case map_of kvs ''embeds'' of
             None \<Rightarrow> Inr payload
           | Some embeds \<Rightarrow>
               and_then (py_first embeds)
               (\<lambda>embed. and_then (py_in ''author'' embed)
               (\<lambda>has_author.
                  and_then (if has_author
                            then and_then (py_getitem embed ''author'')
                                   (\<lambda>author. append_if_present ''name'' author [])
                            else Inr [])
               (\<lambda>parts. and_then (append_if_present ''title'' embed parts)
               (\<lambda>parts. and_then (append_if_present ''description'' embed parts)
               (\<lambda>parts. and_then (py_in ''fields'' embed)
               (\<lambda>has_fields.
                  and_then (if has_fields
                            then and_then (py_getitem embed ''fields'')
                                   (\<lambda>field_list. and_then (py_iter field_list)
                                      (\<lambda>fs. append_fields fs parts))
                            else Inr parts)
               (\<lambda>parts. and_then (join_lines parts)
               (\<lambda>full_text. and_then (parse_refract_message now full_text)
               (\<lambda>data. Inr (PDict data)))))))))))
      | _ \<Rightarrow> Inr payload)"

text \<open>
  One of the three \<^verbatim>\<open>json.loads\<close> blocks of \<^verbatim>\<open>parse_webhook_content\<close>. \<open>loads\<close> stands
  for \<^verbatim>\<open>json.loads\<close>, \<open>None\<close> when it raises.
\<close>

definition try_json :: "(string \<Rightarrow> pyval option) \<Rightarrow> datetime \<Rightarrow> string \<Rightarrow> exn + pyval" where
  "try_json loads now content =
     (case loads content of
        None \<Rightarrow> Inl ValueError
      | Some payload \<Rightarrow>
          (case payload of
             PDict kvs \<Rightarrow> if ''embeds'' \<in> fst ` set kvs
                          then parse_discord_embed now payload else Inr payload
           | _ \<Rightarrow> Inr payload))"

text \<open>
  \<^verbatim>\<open>parse_webhook_content\<close>. The first two \<^verbatim>\<open>try\<close> blocks swallow every exception and go
  on; the text parser is called outside any \<^verbatim>\<open>try\<close>; the last block turns every
  exception into a \<^verbatim>\<open>ValueError\<close>.
\<close>

definition parse_webhook_content ::
  "(string \<Rightarrow> pyval option) \<Rightarrow> datetime \<Rightarrow> string \<Rightarrow> string option \<Rightarrow> exn + pyval" where
  "parse_webhook_content loads now content ctype =
     (let json_hint = (case ctype of
                         None \<Rightarrow> False
                       | Some ct \<Rightarrow> ct \<noteq> [] \<and> contains ''json'' (py_lower ct));
          content_stripped = py_strip content;
          looks_like_json = (starts_with ''{'' content_stripped
                             \<and> starts_with ''}'' (rev content_stripped));
          as_json = try_json loads now content
      in if json_hint \<and> \<not> isl as_json then as_json
         else if looks_like_json \<and> \<not> isl as_json then as_json
         else if is_text_webhook content
              then and_then (parse_refract_message now content) (\<lambda>data. Inr (PDict data))
         else if \<not> isl as_json then as_json
         else Inl ValueError)"

text \<open>
  \<^verbatim>\<open>WebhookPayload(**payload_dict)\<close>: the argument must be a dictionary, and
  \<^verbatim>\<open>order_number\<close> is the one field without a default. \<open>validate_fields\<close> stands for what
  pydantic does with the values of the fields.
\<close>

definition has_order_number :: "pyval \<Rightarrow> bool" where
  "has_order_number payload_dict =
     (case payload_dict of PDict kvs \<Rightarrow> ''order_number'' \<in> fst ` set kvs | _ \<Rightarrow> False)"

definition WebhookPayload_init ::
  "((string \<times> pyval) list \<Rightarrow> exn + webhook_payload) \<Rightarrow> pyval \<Rightarrow> exn + webhook_payload" where
  "WebhookPayload_init validate_fields payload_dict =
     (case payload_dict of
        PDict kvs \<Rightarrow> if ''order_number'' \<in> fst ` set kvs then validate_fields kvs
                     else Inl ValidationError
      | _ \<Rightarrow> Inl TypeError)"

text \<open>
  \<^verbatim>\<open>_process_webhook\<close>, up to the commit: parse, validate, upsert. \<open>t_parse\<close> and \<open>t_map\<close>
  are the readings of the clock in the parser and in \<^verbatim>\<open>_map_webhook_to_order\<close>.
\<close>

definition process_webhook ::
  "((string \<times> pyval) list \<Rightarrow> exn + webhook_payload) \<Rightarrow> (string \<Rightarrow> pyval option)
     \<Rightarrow> datetime \<Rightarrow> datetime \<Rightarrow> message \<Rightarrow> database \<Rightarrow> exn + database" where
  "process_webhook validate_fields loads t_parse t_map m db =
     (let body_text = (case body (data m) of None \<Rightarrow> [] | Some b \<Rightarrow> b);
          ct = (case content_type (data m) of None \<Rightarrow> Some [] | Some c \<Rightarrow> Some c)
      in and_then (parse_webhook_content loads t_parse body_text ct)
         (\<lambda>payload_dict. and_then (WebhookPayload_init validate_fields payload_dict)
         (\<lambda>webhook_payload. and_then (create_order_from_webhook t_map webhook_payload db)
         (\<lambda>(row, db'). Inr db'))))"

section \<open>Dead-letter listing\<close>

lemma slice_from_neg:
  "0 < k \<Longrightarrow> slice_from (- k) xs = drop (length xs - nat k) xs"
  by (auto simp: slice_from_def Let_def max_def nat_diff_distrib' intro: arg_cong2 [where f = drop])

lemma rev_drop_last: "rev (drop (length xs - k) xs) = take k (rev xs)"
proof (cases "k \<le> length xs")
  case True
  then show ?thesis by (simp add: rev_drop)
next
  case False
  then show ?thesis by simp
qed

text \<open>
  C8, as amended. For a limit of at least 1, \<^verbatim>\<open>get_dead_letters\<close> returns at most
  \<open>limit\<close> entries, namely the \<open>limit\<close> most recent entries of the dead-letter queue, and it
  returns them in the order of the queue: the oldest of them first and the most recent
  one last.
\<close>

theorem get_dead_letters_most_recent_last:
  assumes "0 < limit"
  shows "length (get_dead_letters s limit) \<le> nat limit
       \<and> rev (get_dead_letters s limit) = take (nat limit) (rev (dead_letter_queue s))"
proof -
  have eq: "get_dead_letters s limit
      = drop (length (dead_letter_queue s) - nat limit) (dead_letter_queue s)"
    using assms by (simp add: get_dead_letters_def slice_from_neg)
  show ?thesis
    unfolding eq by (simp add: rev_drop_last)
qed

theorem get_dead_letters_most_recent_last_witness:
  "(0::int) < 1
   \<and> length (get_dead_letters two_dead_letters 1) \<le> nat 1
   \<and> rev (get_dead_letters two_dead_letters 1) = [dead_letter_2]"
  using get_dead_letters_most_recent_last [of 1 two_dead_letters]
  by (simp add: two_dead_letters_def)

text \<open>
  C8, as stated, fails: with two entries and a limit of 2 the listing is the queue itself,
  the older entry first.
\<close>

theorem get_dead_letters_counterexample:
  "\<not> (length (get_dead_letters two_dead_letters 2) \<le> 2
      \<and> most_recent_first (dead_letter_queue two_dead_letters)
           (get_dead_letters two_dead_letters 2))"
  by (simp add: get_dead_letters_def slice_from_def most_recent_first_def
      two_dead_letters_def dead_letter_1_def dead_letter_2_def)

section \<open>Retry, then dead-letter\<close>

lemma always_raises_retry:
  "always_raises process m \<Longrightarrow> always_raises process (m\<lparr>retry_count := r\<rparr>)"
  by (simp add: always_raises_def)

lemma always_raises_now:
  assumes "always_raises process m"
  shows "\<exists>e. process m db = Inl e"
proof -
  from assms have "isl (process (m\<lparr>retry_count := retry_count m\<rparr>) db)"
    unfolding always_raises_def by blast
  then show ?thesis by (simp add: isl_def)
qed

lemma run_worker_idle:
  "queue s = [] \<Longrightarrow> run_worker process ts (s, db) = (s, db)"
  by (induction ts) (auto simp: worker_iteration_def)

lemma run_worker_stopped:
  "\<not> is_running (fst sd) \<Longrightarrow> run_worker process ts sd = sd"
  by (cases ts) auto

lemma run_worker_append:
  "run_worker process (us @ vs) sd = run_worker process vs (run_worker process us sd)"
proof (induction us arbitrary: sd)
  case Nil
  show ?case by simp
next
  case (Cons u us)
  obtain t0 t1 where u: "u = (t0, t1)" by (cases u)
  show ?case
  proof (cases "is_running (fst sd)")
    case True
    with Cons.IH show ?thesis by (simp add: u)
  next
    case False
    then show ?thesis by (simp add: u run_worker_stopped)
  qed
qed

lemma worker_iteration_retry:
  assumes "queue s = [m]" and "always_raises process m"
    and "retry_count m + 1 \<le> max_retries s"
  shows "worker_iteration process t0 t1 (s, db)
       = (s\<lparr>queue := [m\<lparr>retry_count := retry_count m + 1\<rparr>]\<rparr>, db)"
proof -
  from always_raises_now [OF assms(2)] obtain e where "process m db = Inl e" by blast
  with assms(1,3) show ?thesis
    by (simp add: worker_iteration_def handle_failure_def)
qed

lemma worker_iteration_dead_letter:
  assumes "queue s = [m]" and "process m db = Inl e"
    and "\<not> retry_count m + 1 \<le> max_retries s"
  shows "worker_iteration process t0 t1 (s, db)
       = (s\<lparr>queue := [],
            dead_letter_queue :=
              deque_append 1000 (m\<lparr>retry_count := retry_count m + 1, failed_at := Some t1,
                                   error := Some e\<rparr>) (dead_letter_queue s),
            total_failed := total_failed s + 1\<rparr>, db)"
  using assms by (simp add: worker_iteration_def handle_failure_def)

lemma run_worker_retries:
  assumes "is_running s" and "queue s = [m]" and "always_raises process m"
    and "retry_count m + int (length ts) \<le> max_retries s"
  shows "run_worker process ts (s, db)
       = (s\<lparr>queue := [m\<lparr>retry_count := retry_count m + int (length ts)\<rparr>]\<rparr>, db)"
  using assms
proof (induction ts arbitrary: s m)
  case Nil
  then show ?case by simp
next
  case (Cons t ts)
  obtain t0 t1 where t: "t = (t0, t1)" by (cases t)
  let ?m = "m\<lparr>retry_count := retry_count m + 1\<rparr>"
  let ?s = "s\<lparr>queue := [?m]\<rparr>"
  from Cons.prems have step: "worker_iteration process t0 t1 (s, db) = (?s, db)"
    by (intro worker_iteration_retry) auto
  have "run_worker process ts (?s, db)
      = (?s\<lparr>queue := [?m\<lparr>retry_count := retry_count ?m + int (length ts)\<rparr>]\<rparr>, db)"
    using Cons.prems by (intro Cons.IH) (auto simp: always_raises_retry)
  with Cons.prems(1) step show ?case
    by (simp add: t add.assoc add.commute)
qed

text \<open>
  C2. An envelope is enqueued into an empty queue of a running worker with
  \<open>max_retries \<ge> 0\<close>, and its processing raises at every attempt. Then, turn after turn of
  the worker loop: after each of the first \<open>max_retries\<close> turns the envelope is back in the
  queue, its \<^verbatim>\<open>retry_count\<close> being the number of turns, with the dead-letter queue and
  \<^verbatim>\<open>total_failed\<close> untouched; turn \<open>max_retries + 1\<close> does not put it back but appends it
  to the dead-letter queue with \<^verbatim>\<open>retry_count = max_retries + 1\<close>, the clock reading and the
  error string of that attempt, and adds one to \<^verbatim>\<open>total_failed\<close>; no later turn changes
  anything. So the envelope is re-enqueued exactly \<open>max_retries\<close> times and counted as failed
  exactly once.
\<close>

theorem worker_retries_then_dead_letters:
  assumes running: "is_running s"
    and nonneg: "0 \<le> max_retries s"
    and empty: "queue s = []"
    and enq: "enqueue wd t_received t_id s = (True, s0)"
    and raises: "always_raises process (last (queue s0))"
  shows "\<exists>m. queue s0 = [m] \<and> data m = wd \<and> retry_count m = 0
     \<and> (length ts \<le> nat (max_retries s) \<longrightarrow>
           run_worker process ts (s0, db)
             = (s0\<lparr>queue := [m\<lparr>retry_count := int (length ts)\<rparr>]\<rparr>, db))
     \<and> (nat (max_retries s) < length ts \<longrightarrow>
           (\<exists>e. process (m\<lparr>retry_count := max_retries s\<rparr>) db = Inl e
              \<and> run_worker process ts (s0, db)
                = (s0\<lparr>queue := [],
                      dead_letter_queue :=
                        deque_append 1000
                          (m\<lparr>retry_count := max_retries s + 1,
                             failed_at := Some (snd (ts ! nat (max_retries s))),
                             error := Some e\<rparr>)
                          (dead_letter_queue s),
                      total_failed := total_failed s + 1\<rparr>, db)))"
proof -
  define m where "m = \<lparr>data = wd, received_at = t_received, retry_count = 0,
    message_id = (t_id, total_received s), failed_at = None, error = None\<rparr>"
  from enq empty have q0: "queue s0 = [m]"
    and run0: "is_running s0" and mr0: "max_retries s0 = max_retries s"
    and dl0: "dead_letter_queue s0 = dead_letter_queue s"
    and tf0: "total_failed s0 = total_failed s"
    using running by (auto simp: enqueue_def Let_def m_def split: if_splits)
  from raises q0 have raises_m: "always_raises process m" by simp
  have rc0: "retry_count m = 0" and dm: "data m = wd" by (simp_all add: m_def)
  have short: "run_worker process us (s0, db)
      = (s0\<lparr>queue := [m\<lparr>retry_count := int (length us)\<rparr>]\<rparr>, db)"
    if "length us \<le> nat (max_retries s)" for us
  proof -
    from that nonneg have "retry_count m + int (length us) \<le> max_retries s0"
      by (simp add: rc0 mr0)
    from run_worker_retries [OF run0 q0 raises_m this, of db] show ?thesis
      by (simp add: rc0)
  qed
  have long: "\<exists>e. process (m\<lparr>retry_count := max_retries s\<rparr>) db = Inl e
      \<and> run_worker process ts (s0, db)
        = (s0\<lparr>queue := [],
              dead_letter_queue :=
                deque_append 1000
                  (m\<lparr>retry_count := max_retries s + 1,
                     failed_at := Some (snd (ts ! nat (max_retries s))),
                     error := Some e\<rparr>)
                  (dead_letter_queue s),
              total_failed := total_failed s + 1\<rparr>, db)"
    if len: "nat (max_retries s) < length ts"
  proof -
    let ?k = "nat (max_retries s)"
    let ?mk = "m\<lparr>retry_count := max_retries s\<rparr>"
    let ?sk = "s0\<lparr>queue := [?mk]\<rparr>"
    obtain t0 t1 where tk: "ts ! ?k = (t0, t1)" by (cases "ts ! ?k")
    from len have split: "ts = take ?k ts @ (t0, t1) # drop (Suc ?k) ts"
      by (simp add: tk [symmetric] id_take_nth_drop [symmetric])
    from always_raises_now [OF always_raises_retry [OF raises_m]]
    obtain e where e: "process ?mk db = Inl e" by blast
    have first: "run_worker process (take ?k ts) (s0, db) = (?sk, db)"
      using short [of "take ?k ts"] len nonneg by simp
    have step: "worker_iteration process t0 t1 (?sk, db)
        = (s0\<lparr>queue := [],
              dead_letter_queue :=
                deque_append 1000
                  (m\<lparr>retry_count := max_retries s + 1, failed_at := Some t1,
                     error := Some e\<rparr>)
                  (dead_letter_queue s),
              total_failed := total_failed s + 1\<rparr>, db)"
      using e
        worker_iteration_dead_letter [where s = ?sk and m = ?mk and process = process
          and db = db and e = e and ?t0.0 = t0 and ?t1.0 = t1]
      by (simp add: mr0 dl0 tf0)
    have "run_worker process ts (s0, db)
        = run_worker process ((t0, t1) # drop (Suc ?k) ts) (?sk, db)"
      by (subst split, subst run_worker_append) (simp only: first)
    also have "\<dots> = run_worker process (drop (Suc ?k) ts)
        (worker_iteration process t0 t1 (?sk, db))"
      using run0 by simp
    also have "\<dots> = worker_iteration process t0 t1 (?sk, db)"
      unfolding step by (rule run_worker_idle) simp
    finally show ?thesis
      using e step by (simp add: tk)
  qed
  from q0 rc0 dm short long show ?thesis by blast
qed

theorem worker_retries_then_dead_letters_witness:
  "run_worker failing_process [(20, 21), (22, 23)]
       (snd (enqueue unparsable 10 11 (start (WebhookQueue 3))), ())
     = (\<lparr>queue = [\<lparr>data = unparsable, received_at = 10, retry_count = 2,
                      message_id = (11, 0), failed_at = None, error = None\<rparr>],
         dead_letter_queue = [], max_retries = 3, is_running = True, total_received = 1,
         total_processed = 0, total_failed = 0, queue_size_peak = 1,
         processing_times = []\<rparr>, ())
   \<and> run_worker failing_process [(20, 21), (22, 23), (24, 25), (26, 27), (28, 29)]
       (snd (enqueue unparsable 10 11 (start (WebhookQueue 3))), ())
     = (\<lparr>queue = [],
         dead_letter_queue = [\<lparr>data = unparsable, received_at = 10, retry_count = 4,
                      message_id = (11, 0), failed_at = Some 27,
                      error = Some ''Could not parse webhook content as JSON or text format''\<rparr>],
         max_retries = 3, is_running = True, total_received = 1,
         total_processed = 0, total_failed = 1, queue_size_peak = 1,
         processing_times = []\<rparr>, ())"
proof -
  let ?init = "start (WebhookQueue 3)"
  let ?enq = "snd (enqueue unparsable 10 11 ?init)"
  have h1: "is_running ?init" and h2: "0 \<le> max_retries ?init" and h3: "queue ?init = []"
    by (simp_all add: start_def WebhookQueue_def)
  have h4: "enqueue unparsable 10 11 ?init = (True, ?enq)"
    by (simp add: enqueue_def start_def WebhookQueue_def Let_def)
  have h5: "always_raises failing_process (last (queue ?enq))"
    by (simp add: always_raises_def failing_process_def)
  note inst = worker_retries_then_dead_letters [OF h1 h2 h3 h4 h5]
  show ?thesis
    using inst [of "[(20, 21), (22, 23)]" "()"]
      inst [of "[(20, 21), (22, 23), (24, 25), (26, 27), (28, 29)]" "()"]
    by (auto simp: enqueue_def start_def WebhookQueue_def Let_def deque_append_def
        failing_process_def)
qed

section \<open>Field mapping: what \<^verbatim>\<open>_map_webhook_to_order\<close> computes\<close>

lemma order_data_keys:
  "map fst (map_webhook_to_order now p) =
     [''order_number'', ''product'', ''price'', ''total'', ''commission'', ''quantity'',
      ''email'', ''customer_name'', ''profile'', ''proxy_list'', ''reference_number'',
      ''status'', ''tracking_number'', ''order_date'', ''order_time'', ''payment_method'',
      ''shipping_address'', ''shipping_method'', ''notes'', ''source'']"
  by (simp add: map_webhook_to_order_def Let_def)

lemma order_data_distinct: "distinct (map fst (map_webhook_to_order now p))"
  unfolding order_data_keys by simp

lemma order_data_product:
  "getattr (map_webhook_to_order now p) ''product''
     = of_str (py_or truthy_str (product p)
                 (py_or truthy_str (product_name p)
                    (py_or truthy_str (item p) (Some ''Unknown Product''))))"
  by (simp add: map_webhook_to_order_def Let_def getattr_def)

lemma order_data_price:
  "getattr (map_webhook_to_order now p) ''price''
     = of_float (py_or truthy_float (price p) (py_or truthy_float (unit_price p) (Some 0)))"
  by (simp add: map_webhook_to_order_def Let_def getattr_def)

lemma order_data_total:
  "getattr (map_webhook_to_order now p) ''total''
     = of_float (py_or truthy_float (total_v p)
                   (py_or truthy_float (total_price p) (amount p)))"
  by (simp add: map_webhook_to_order_def Let_def getattr_def)

lemma order_data_commission:
  "getattr (map_webhook_to_order now p) ''commission''
     = of_float (py_or truthy_float (commission p) (py_or truthy_float (profit p) (Some 0)))"
  by (simp add: map_webhook_to_order_def Let_def getattr_def)

lemma order_data_quantity:
  "getattr (map_webhook_to_order now p) ''quantity''
     = of_int_opt (py_or truthy_int (quantity p) (py_or truthy_int (qty p) (Some 1)))"
  by (simp add: map_webhook_to_order_def Let_def getattr_def)

lemma order_data_email:
  "getattr (map_webhook_to_order now p) ''email''
     = of_str (py_or truthy_str (email p) (customer_email p))"
  by (simp add: map_webhook_to_order_def Let_def getattr_def)

lemma order_data_customer_name:
  "getattr (map_webhook_to_order now p) ''customer_name''
     = of_str (py_or truthy_str (customer_name p) (name p))"
  by (simp add: map_webhook_to_order_def Let_def getattr_def)

lemma order_data_proxy_list:
  "getattr (map_webhook_to_order now p) ''proxy_list''
     = of_str (py_or truthy_str (proxy_list p) (proxy p))"
  by (simp add: map_webhook_to_order_def Let_def getattr_def)

lemma order_data_reference_number:
  "getattr (map_webhook_to_order now p) ''reference_number''
     = of_str (py_or truthy_str (reference p) (reference_number p))"
  by (simp add: map_webhook_to_order_def Let_def getattr_def)

lemma order_data_tracking_number:
  "getattr (map_webhook_to_order now p) ''tracking_number''
     = of_str (py_or truthy_str (tracking p)
                 (py_or truthy_str (tracking_number p) (shipment_id p)))"
  by (simp add: map_webhook_to_order_def Let_def getattr_def)

lemmas order_data_fields = order_data_product order_data_price order_data_total
  order_data_commission order_data_quantity order_data_email order_data_customer_name
  order_data_proxy_list order_data_reference_number order_data_tracking_number

lemmas map_simps = map_webhook_to_order_def py_or_def truthy_str_def truthy_float_def
  truthy_int_def

lemma map_of_order_data_product:
  "map_of (map_webhook_to_order now p) ''product''
     = Some (getattr (map_webhook_to_order now p) ''product'')"
  by (simp add: map_webhook_to_order_def Let_def getattr_def)

lemma map_of_order_data_order_number:
  "map_of (map_webhook_to_order now p) ''order_number'' = Some (PStr (order_number p))"
  by (simp add: map_webhook_to_order_def Let_def)

lemma py_or_first_truthy:
  "py_or truthy a b = first_truthy truthy [a] b"
  by (cases a) (simp_all add: py_or_def)

lemma first_truthy_Cons:
  "first_truthy truthy [a] (first_truthy truthy aliases b) = first_truthy truthy (a # aliases) b"
  by (cases a) simp_all

section \<open>The store: lookup and update\<close>

lemma filter_distinct_key:
  "distinct (map f xs) \<Longrightarrow> filter (\<lambda>x. f x = v) xs = [] \<or> (\<exists>x. filter (\<lambda>x. f x = v) xs = [x])"
proof (induction xs)
  case Nil
  show ?case by simp
next
  case (Cons a xs)
  show ?case
  proof (cases "f a = v")
    case True
    with Cons.prems have "v \<notin> f ` set xs" by auto
    then have "filter (\<lambda>x. f x = v) xs = []" by (auto simp: filter_empty_conv)
    with True show ?thesis by simp
  next
    case False
    with Cons show ?thesis by simp
  qed
qed

lemma get_order_by_number_cases:
  assumes "table_constraints db"
  shows "(get_order_by_number db k = Inr None
            \<and> (\<forall>row \<in> set (orders db). getattr (columns row) ''order_number'' \<noteq> PStr k))
       \<or> (\<exists>row. get_order_by_number db k = Inr (Some row) \<and> row \<in> set (orders db)
            \<and> getattr (columns row) ''order_number'' = PStr k)"
proof -
  let ?f = "\<lambda>row. getattr (columns row) ''order_number''"
  from assms have "distinct (map ?f (orders db))" by (simp add: table_constraints_def)
  from filter_distinct_key [OF this, of "PStr k"] show ?thesis
  proof
    assume e: "filter (\<lambda>x. ?f x = PStr k) (orders db) = []"
    then have "\<forall>row \<in> set (orders db). ?f row \<noteq> PStr k" by (simp add: filter_empty_conv)
    with e show ?thesis by (simp add: get_order_by_number_def)
  next
    assume "\<exists>x. filter (\<lambda>x. ?f x = PStr k) (orders db) = [x]"
    then obtain x where x: "filter (\<lambda>x. ?f x = PStr k) (orders db) = [x]" by blast
    then have "x \<in> set (filter (\<lambda>x. ?f x = PStr k) (orders db))" by simp
    then have "x \<in> set (orders db)" "?f x = PStr k" by simp_all
    with x show ?thesis by (simp add: get_order_by_number_def)
  qed
qed

lemma getattr_setattr:
  "getattr (setattr key v attrs) k = (if k = key then v else getattr attrs k)"
  by (simp add: getattr_def setattr_def update_conv')

lemma update_fields_getattr:
  "distinct (map fst nd) \<Longrightarrow>
   getattr (fst (update_fields nd attrs ch)) k =
     (case map_of nd k of
        None \<Rightarrow> getattr attrs k
      | Some v \<Rightarrow> if k \<in> set [''order_number'', ''source''] \<or> v = PNone \<or> py_eq (getattr attrs k) v
                  then getattr attrs k else v)"
proof (induction nd arbitrary: attrs ch)
  case Nil
  show ?case by simp
next
  case (Cons kv nd)
  obtain key v where kv: "kv = (key, v)" by (cases kv)
  from Cons.prems have d: "distinct (map fst nd)" and fresh: "map_of nd key = None"
    by (auto simp: kv map_of_eq_None_iff)
  note IH = Cons.IH [OF d]
  show ?case
  proof (cases "k = key")
    case True
    have rest: "getattr (fst (update_fields nd a c)) key = getattr a key" for a c
      using IH [of a c] fresh True by simp
    from True rest [of attrs ch]
      rest [of "setattr key v attrs" "ch @ [(key, getattr attrs key, v)]"]
    show ?thesis
      by (auto simp: kv Let_def getattr_setattr)
  next
    case False
    then show ?thesis
      by (simp add: kv IH Let_def getattr_setattr split: option.splits)
  qed
qed

lemma py_eq_PStr [simp]: "py_eq a (PStr s) \<longleftrightarrow> a = PStr s"
  by (cases a) (simp_all add: py_eq_def num_of_def)

lemma update_existing_order_member:
  assumes "row \<in> set (orders db)"
    and "update_existing_order row nd raw db = (row', db')"
  shows "row' \<in> set (orders db')"
    and "columns row' = fst (update_fields nd (columns row) [])"
proof -
  obtain attrs changes where u: "update_fields nd (columns row) [] = (attrs, changes)"
    by (cases "update_fields nd (columns row) []")
  from assms(2) have r: "row' = row\<lparr>columns := attrs\<rparr>"
    and o: "orders db' = map (\<lambda>r. if id_v r = id_v row then row\<lparr>columns := attrs\<rparr> else r) (orders db)"
    by (auto simp: update_existing_order_def u Let_def split: if_splits)
  from assms(1) show "row' \<in> set (orders db')"
    unfolding o r by (auto simp: image_iff intro!: bexI [of _ row])
  show "columns row' = fst (update_fields nd (columns row) [])"
    by (simp add: r u)
qed

section \<open>Alias resolution\<close>

text \<open>
  C5, as amended. For every payload, each canonical field is resolved by scanning its
  aliases in the order of the code and taking the first value that is truthy (present,
  and neither empty nor zero); when none is, the result is the last alias, or the literal
  default where the chain has one. \<^verbatim>\<open>tracking_number\<close> is resolved in the order
  \<^verbatim>\<open>tracking\<close>, \<^verbatim>\<open>tracking_number\<close>, \<^verbatim>\<open>shipment_id\<close> and \<^verbatim>\<open>reference_number\<close> in the order
  \<^verbatim>\<open>reference\<close>, \<^verbatim>\<open>reference_number\<close>; so a non-empty \<^verbatim>\<open>tracking\<close> (or \<^verbatim>\<open>reference\<close>) wins
  over whatever the other aliases hold.
\<close>

theorem alias_resolution_order:
  "(let od = map_webhook_to_order now p in
      getattr od ''tracking_number''
        = of_str (first_truthy truthy_str [tracking p, tracking_number p] (shipment_id p))
    \<and> getattr od ''reference_number''
        = of_str (first_truthy truthy_str [reference p] (reference_number p))
    \<and> getattr od ''product''
        = of_str (first_truthy truthy_str [product p, product_name p, item p]
                    (Some ''Unknown Product''))
    \<and> getattr od ''price''
        = of_float (first_truthy truthy_float [price p, unit_price p] (Some 0))
    \<and> getattr od ''total''
        = of_float (first_truthy truthy_float [total_v p, total_price p] (amount p))
    \<and> getattr od ''commission''
        = of_float (first_truthy truthy_float [commission p, profit p] (Some 0))
    \<and> getattr od ''quantity''
        = of_int_opt (first_truthy truthy_int [quantity p, qty p] (Some 1))
    \<and> getattr od ''email''
        = of_str (first_truthy truthy_str [email p] (customer_email p))
    \<and> getattr od ''customer_name''
        = of_str (first_truthy truthy_str [customer_name p] (name p))
    \<and> getattr od ''proxy_list''
        = of_str (first_truthy truthy_str [proxy_list p] (proxy p)))
   \<and> (\<forall>a. tracking p = Some a \<and> a \<noteq> [] \<longrightarrow>
          getattr (map_webhook_to_order now p) ''tracking_number'' = PStr a)
   \<and> (\<forall>a. reference p = Some a \<and> a \<noteq> [] \<longrightarrow>
          getattr (map_webhook_to_order now p) ''reference_number'' = PStr a)"
proof -
  have chains: "let od = map_webhook_to_order now p in
      getattr od ''tracking_number''
        = of_str (first_truthy truthy_str [tracking p, tracking_number p] (shipment_id p))
    \<and> getattr od ''reference_number''
        = of_str (first_truthy truthy_str [reference p] (reference_number p))
    \<and> getattr od ''product''
        = of_str (first_truthy truthy_str [product p, product_name p, item p]
                    (Some ''Unknown Product''))
    \<and> getattr od ''price''
        = of_float (first_truthy truthy_float [price p, unit_price p] (Some 0))
    \<and> getattr od ''total''
        = of_float (first_truthy truthy_float [total_v p, total_price p] (amount p))
    \<and> getattr od ''commission''
        = of_float (first_truthy truthy_float [commission p, profit p] (Some 0))
    \<and> getattr od ''quantity''
        = of_int_opt (first_truthy truthy_int [quantity p, qty p] (Some 1))
    \<and> getattr od ''email''
        = of_str (first_truthy truthy_str [email p] (customer_email p))
    \<and> getattr od ''customer_name''
        = of_str (first_truthy truthy_str [customer_name p] (name p))
    \<and> getattr od ''proxy_list''
        = of_str (first_truthy truthy_str [proxy_list p] (proxy p))"
    unfolding Let_def order_data_fields py_or_first_truthy first_truthy_Cons by simp
  have tr: "getattr (map_webhook_to_order now p) ''tracking_number'' = PStr a"
    if "tracking p = Some a \<and> a \<noteq> []" for a
    using that by (simp add: order_data_tracking_number py_or_def truthy_str_def of_str_def)
  have re: "getattr (map_webhook_to_order now p) ''reference_number'' = PStr a"
    if "reference p = Some a \<and> a \<noteq> []" for a
    using that by (simp add: order_data_reference_number py_or_def truthy_str_def of_str_def)
  from chains tr re show ?thesis by blast
qed

theorem alias_resolution_order_witness:
  "getattr (map_webhook_to_order 100 two_trackings) ''tracking_number'' = PStr ''T-alias''"
  using alias_resolution_order [of 100 two_trackings]
  by (simp add: two_trackings_def WebhookPayload_def)

text \<open>
  C5, as stated, fails: with \<^verbatim>\<open>tracking\<close> and \<^verbatim>\<open>tracking_number\<close> both present, the order
  \<^verbatim>\<open>tracking_number\<close>, \<^verbatim>\<open>tracking\<close>, \<^verbatim>\<open>shipment_id\<close> would give the value of
  \<^verbatim>\<open>tracking_number\<close>; the code gives the value of \<^verbatim>\<open>tracking\<close>.
\<close>

theorem alias_resolution_order_counterexample:
  "getattr (map_webhook_to_order 100 two_trackings) ''tracking_number''
     \<noteq> of_str (first_non_null
          [tracking_number two_trackings, tracking two_trackings, shipment_id two_trackings])"
  by (simp add: order_data_tracking_number two_trackings_def WebhookPayload_def py_or_def
      truthy_str_def of_str_def)

section \<open>The default product\<close>

text \<open>
  C9. For every payload in which none of \<^verbatim>\<open>product\<close>, \<^verbatim>\<open>product_name\<close> and \<^verbatim>\<open>item\<close> carries
  a non-empty value, the canonical \<^verbatim>\<open>product\<close> is the string \<^verbatim>\<open>"Unknown Product"\<close>; and on a
  store that meets the constraints of its table the upsert returns, and the order it
  returns and stores, created or updated, has this product, never \<open>None\<close>.
\<close>

theorem unknown_product_default:
  assumes "product p = None \<or> product p = Some []"
    and "product_name p = None \<or> product_name p = Some []"
    and "item p = None \<or> item p = Some []"
    and "table_constraints db"
  shows "getattr (map_webhook_to_order now p) ''product'' = PStr ''Unknown Product''
     \<and> (\<exists>row db'. create_order_from_webhook now p db = Inr (row, db')
          \<and> row \<in> set (orders db')
          \<and> getattr (columns row) ''order_number'' = PStr (order_number p)
          \<and> getattr (columns row) ''product'' = PStr ''Unknown Product'')"
proof -
  let ?od = "map_webhook_to_order now p"
  have prod: "getattr ?od ''product'' = PStr ''Unknown Product''"
    using assms(1-3) by (auto simp: order_data_product py_or_def truthy_str_def of_str_def)
  have num: "getattr ?od ''order_number'' = PStr (order_number p)"
    by (simp add: getattr_def map_of_order_data_order_number)
  from get_order_by_number_cases [OF assms(4), of "order_number p"]
  have "\<exists>row db'. create_order_from_webhook now p db = Inr (row, db')
          \<and> row \<in> set (orders db')
          \<and> getattr (columns row) ''order_number'' = PStr (order_number p)
          \<and> getattr (columns row) ''product'' = PStr ''Unknown Product''"
  proof (elim disjE conjE exE)
    assume "get_order_by_number db (order_number p) = Inr None"
    then show ?thesis
      by (simp add: create_order_from_webhook_def create_new_order_def Let_def prod num)
  next
    fix existing
    assume look: "get_order_by_number db (order_number p) = Inr (Some existing)"
      and mem: "existing \<in> set (orders db)"
      and key: "getattr (columns existing) ''order_number'' = PStr (order_number p)"
    obtain row' db' where u: "update_existing_order existing ?od p db = (row', db')"
      by (cases "update_existing_order existing ?od p db")
    note cols = update_existing_order_member [OF mem u]
    have "getattr (columns row') ''product'' = PStr ''Unknown Product''"
      using prod
      by (simp add: cols(2) update_fields_getattr [OF order_data_distinct]
          map_of_order_data_product)
    moreover have "getattr (columns row') ''order_number'' = PStr (order_number p)"
      by (simp add: cols(2) update_fields_getattr [OF order_data_distinct]
          map_of_order_data_order_number key)
    ultimately show ?thesis
      using look u cols(1) by (simp add: create_order_from_webhook_def Let_def)
  qed
  with prod show ?thesis by blast
qed

theorem unknown_product_default_witness:
  "getattr (map_webhook_to_order 100 (WebhookPayload ''A1'')) ''product''
     = PStr ''Unknown Product''
   \<and> (\<exists>row db'. create_order_from_webhook 100 (WebhookPayload ''A1'') empty_database
            = Inr (row, db')
          \<and> row \<in> set (orders db')
          \<and> getattr (columns row) ''order_number'' = PStr ''A1''
          \<and> getattr (columns row) ''product'' = PStr ''Unknown Product'')"
  using unknown_product_default [of "WebhookPayload ''A1''" empty_database 100]
  by (simp add: WebhookPayload_def table_constraints_def empty_database_def)

section \<open>Falsy values and alias fallback\<close>

text \<open>
  C10. The fallback from one alias to the next, or to the literal default, is decided by
  truthiness: a field that is present with the value \<open>0\<close>, \<open>0.0\<close> or the empty string, and
  that has another alias or a default behind it, gives the same \<^verbatim>\<open>order_data\<close> as the
  payload without this field. In particular \<^verbatim>\<open>price = 0.0\<close> with \<^verbatim>\<open>unit_price = 5.0\<close> gives
  the price \<open>5.0\<close>, and \<^verbatim>\<open>quantity = 0\<close> (with no truthy \<^verbatim>\<open>qty\<close>) gives the default \<open>1\<close>.
\<close>

theorem falsy_alias_treated_as_absent:
  "(price p = Some 0 \<longrightarrow>
      map_webhook_to_order now p = map_webhook_to_order now (p\<lparr>price := None\<rparr>))
   \<and> (unit_price p = Some 0 \<longrightarrow>
      map_webhook_to_order now p = map_webhook_to_order now (p\<lparr>unit_price := None\<rparr>))
   \<and> (total_v p = Some 0 \<longrightarrow>
      map_webhook_to_order now p = map_webhook_to_order now (p\<lparr>total_v := None\<rparr>))
   \<and> (total_price p = Some 0 \<longrightarrow>
      map_webhook_to_order now p = map_webhook_to_order now (p\<lparr>total_price := None\<rparr>))
   \<and> (commission p = Some 0 \<longrightarrow>
      map_webhook_to_order now p = map_webhook_to_order now (p\<lparr>commission := None\<rparr>))
   \<and> (profit p = Some 0 \<longrightarrow>
      map_webhook_to_order now p = map_webhook_to_order now (p\<lparr>profit := None\<rparr>))
   \<and> (quantity p = Some 0 \<longrightarrow>
      map_webhook_to_order now p = map_webhook_to_order now (p\<lparr>quantity := None\<rparr>))
   \<and> (qty p = Some 0 \<longrightarrow>
      map_webhook_to_order now p = map_webhook_to_order now (p\<lparr>qty := None\<rparr>))
   \<and> (product p = Some [] \<longrightarrow>
      map_webhook_to_order now p = map_webhook_to_order now (p\<lparr>product := None\<rparr>))
   \<and> (product_name p = Some [] \<longrightarrow>
      map_webhook_to_order now p = map_webhook_to_order now (p\<lparr>product_name := None\<rparr>))
   \<and> (item p = Some [] \<longrightarrow>
      map_webhook_to_order now p = map_webhook_to_order now (p\<lparr>item := None\<rparr>))
   \<and> (email p = Some [] \<longrightarrow>
      map_webhook_to_order now p = map_webhook_to_order now (p\<lparr>email := None\<rparr>))
   \<and> (customer_name p = Some [] \<longrightarrow>
      map_webhook_to_order now p = map_webhook_to_order now (p\<lparr>customer_name := None\<rparr>))
   \<and> (proxy_list p = Some [] \<longrightarrow>
      map_webhook_to_order now p = map_webhook_to_order now (p\<lparr>proxy_list := None\<rparr>))
   \<and> (reference p = Some [] \<longrightarrow>
      map_webhook_to_order now p = map_webhook_to_order now (p\<lparr>reference := None\<rparr>))
   \<and> (status p = Some [] \<longrightarrow>
      map_webhook_to_order now p = map_webhook_to_order now (p\<lparr>status := None\<rparr>))
   \<and> (order_status p = Some [] \<longrightarrow>
      map_webhook_to_order now p = map_webhook_to_order now (p\<lparr>order_status := None\<rparr>))
   \<and> (tracking p = Some [] \<longrightarrow>
      map_webhook_to_order now p = map_webhook_to_order now (p\<lparr>tracking := None\<rparr>))
   \<and> (tracking_number p = Some [] \<longrightarrow>
      map_webhook_to_order now p = map_webhook_to_order now (p\<lparr>tracking_number := None\<rparr>))
   \<and> (price p = Some 0 \<and> unit_price p = Some 5 \<longrightarrow>
      getattr (map_webhook_to_order now p) ''price'' = PFloat 5)
   \<and> (quantity p = Some 0 \<and> (qty p = None \<or> qty p = Some 0) \<longrightarrow>
      getattr (map_webhook_to_order now p) ''quantity'' = PInt 1)"
proof -
  have 1: "price p = Some 0 \<longrightarrow>
      map_webhook_to_order now p = map_webhook_to_order now (p\<lparr>price := None\<rparr>)"
    by (simp add: map_simps)
  have 2: "unit_price p = Some 0 \<longrightarrow>
      map_webhook_to_order now p = map_webhook_to_order now (p\<lparr>unit_price := None\<rparr>)"
    by (simp add: map_simps)
  have 3: "total_v p = Some 0 \<longrightarrow>
      map_webhook_to_order now p = map_webhook_to_order now (p\<lparr>total_v := None\<rparr>)"
    by (simp add: map_simps)
  have 4: "total_price p = Some 0 \<longrightarrow>
      map_webhook_to_order now p = map_webhook_to_order now (p\<lparr>total_price := None\<rparr>)"
    by (simp add: map_simps)
  have 5: "commission p = Some 0 \<longrightarrow>
      map_webhook_to_order now p = map_webhook_to_order now (p\<lparr>commission := None\<rparr>)"
    by (simp add: map_simps)
  have 6: "profit p = Some 0 \<longrightarrow>
      map_webhook_to_order now p = map_webhook_to_order now (p\<lparr>profit := None\<rparr>)"
    by (simp add: map_simps)
  have 7: "quantity p = Some 0 \<longrightarrow>
      map_webhook_to_order now p = map_webhook_to_order now (p\<lparr>quantity := None\<rparr>)"
    by (simp add: map_simps)
  have 8: "qty p = Some 0 \<longrightarrow>
      map_webhook_to_order now p = map_webhook_to_order now (p\<lparr>qty := None\<rparr>)"
    by (simp add: map_simps)
  have 9: "product p = Some [] \<longrightarrow>
      map_webhook_to_order now p = map_webhook_to_order now (p\<lparr>product := None\<rparr>)"
    by (simp add: map_simps)
  have 10: "product_name p = Some [] \<longrightarrow>
      map_webhook_to_order now p = map_webhook_to_order now (p\<lparr>product_name := None\<rparr>)"
    by (simp add: map_simps)
  have 11: "item p = Some [] \<longrightarrow>
      map_webhook_to_order now p = map_webhook_to_order now (p\<lparr>item := None\<rparr>)"
    by (simp add: map_simps)
  have 12: "email p = Some [] \<longrightarrow>
      map_webhook_to_order now p = map_webhook_to_order now (p\<lparr>email := None\<rparr>)"
    by (simp add: map_simps)
  have 13: "customer_name p = Some [] \<longrightarrow>
      map_webhook_to_order now p = map_webhook_to_order now (p\<lparr>customer_name := None\<rparr>)"
    by (simp add: map_simps)
  have 14: "proxy_list p = Some [] \<longrightarrow>
      map_webhook_to_order now p = map_webhook_to_order now (p\<lparr>proxy_list := None\<rparr>)"
    by (simp add: map_simps)
  have 15: "reference p = Some [] \<longrightarrow>
      map_webhook_to_order now p = map_webhook_to_order now (p\<lparr>reference := None\<rparr>)"
    by (simp add: map_simps)
  have 16: "status p = Some [] \<longrightarrow>
      map_webhook_to_order now p = map_webhook_to_order now (p\<lparr>status := None\<rparr>)"
    by (simp add: map_simps)
  have 17: "order_status p = Some [] \<longrightarrow>
      map_webhook_to_order now p = map_webhook_to_order now (p\<lparr>order_status := None\<rparr>)"
    by (simp add: map_simps split: option.splits)
  have 18: "tracking p = Some [] \<longrightarrow>
      map_webhook_to_order now p = map_webhook_to_order now (p\<lparr>tracking := None\<rparr>)"
    by (simp add: map_simps)
  have 19: "tracking_number p = Some [] \<longrightarrow>
      map_webhook_to_order now p = map_webhook_to_order now (p\<lparr>tracking_number := None\<rparr>)"
    by (simp add: map_simps)
  have 20: "price p = Some 0 \<and> unit_price p = Some 5 \<longrightarrow>
      getattr (map_webhook_to_order now p) ''price'' = PFloat 5"
    by (simp add: order_data_price py_or_def truthy_float_def of_float_def)
  have 21: "quantity p = Some 0 \<and> (qty p = None \<or> qty p = Some 0) \<longrightarrow>
      getattr (map_webhook_to_order now p) ''quantity'' = PInt 1"
    by (auto simp: order_data_quantity py_or_def truthy_int_def of_int_opt_def)
  show ?thesis
    by (intro conjI) (fact 1 2 3 4 5 6 7 8 9 10 11 12 13 14 15 16 17 18 19 20 21)+
qed

theorem falsy_alias_treated_as_absent_witness:
  "price zero_price = Some 0 \<and> unit_price zero_price = Some 5
   \<and> quantity zero_price = Some 0 \<and> qty zero_price = None
   \<and> map_webhook_to_order 100 zero_price
       = map_webhook_to_order 100 (zero_price\<lparr>price := None\<rparr>)
   \<and> getattr (map_webhook_to_order 100 zero_price) ''price'' = PFloat 5
   \<and> getattr (map_webhook_to_order 100 zero_price) ''quantity'' = PInt 1"
proof -
  have given: "price zero_price = Some 0" "unit_price zero_price = Some 5"
    "quantity zero_price = Some 0" "qty zero_price = None"
    by (simp_all add: zero_price_def WebhookPayload_def)
  note inst = falsy_alias_treated_as_absent [of zero_price 100]
  from inst have same: "price zero_price = Some 0 \<longrightarrow>
      map_webhook_to_order 100 zero_price
        = map_webhook_to_order 100 (zero_price\<lparr>price := None\<rparr>)"
    by (elim conjE) assumption
  from inst have pr: "price zero_price = Some 0 \<and> unit_price zero_price = Some 5 \<longrightarrow>
      getattr (map_webhook_to_order 100 zero_price) ''price'' = PFloat 5"
    by (elim conjE) assumption
  from inst have qu: "quantity zero_price = Some 0
        \<and> (qty zero_price = None \<or> qty zero_price = Some 0) \<longrightarrow>
      getattr (map_webhook_to_order 100 zero_price) ''quantity'' = PInt 1"
    by (elim conjE) assumption
  from given same pr qu show ?thesis
    by (intro conjI) (simp_all only: simp_thms)
qed

section \<open>Replaying a payload\<close>

lemmas upsert_simps = create_order_from_webhook_def get_order_by_number_def
  create_new_order_def update_existing_order_def next_id_def getattr_def setattr_def
  map_webhook_to_order_def py_or_def truthy_str_def truthy_float_def truthy_int_def
  truthy_datetime_def of_str_def of_float_def of_int_opt_def of_datetime_def
  py_eq_def num_of_def WebhookPayload_def empty_database_def Let_def

lemma py_eq_refl: "py_eq a a"
  by (simp add: py_eq_def split: option.splits)

lemma update_fields_settled:
  "\<forall>(key, v) \<in> set nd. key \<in> set [''order_number'', ''source''] \<or> v = PNone
       \<or> py_eq (getattr attrs key) v
   \<Longrightarrow> update_fields nd attrs ch = (attrs, ch)"
  by (induction nd arbitrary: attrs ch) auto

lemma order_data_same_clock:
  "order_date p \<noteq> None \<or> created_at p \<noteq> None \<or> date p \<noteq> None \<or> now' = now
   \<Longrightarrow> map_webhook_to_order now' p = map_webhook_to_order now p"
  by (auto simp: map_webhook_to_order_def py_or_def truthy_datetime_def split: option.splits)

lemma fold_max_ge: "x \<in> set xs \<Longrightarrow> x \<le> fold max xs (a::int)"
proof (induction xs arbitrary: a)
  case Nil
  then show ?case by simp
next
  case (Cons y ys)
  have mono: "b \<le> fold max ys b" for b :: int
    by (induction ys arbitrary: b) (auto intro: order_trans [OF max.cobounded2])
  show ?case
  proof (cases "x = y")
    case True
    have "y \<le> max y a" by simp
    also have "\<dots> \<le> fold max ys (max y a)" by (rule mono)
    finally show ?thesis using True by simp
  next
    case False
    with Cons show ?thesis by simp
  qed
qed

lemma next_id_fresh: "next_id db \<notin> set (map id_v (orders db))"
proof
  assume "next_id db \<in> set (map id_v (orders db))"
  from fold_max_ge [OF this, of 0] show False by (simp add: next_id_def)
qed

lemma settled_created: "distinct (map fst nd) \<Longrightarrow> settled nd nd"
  by (auto simp: settled_def getattr_def py_eq_refl)

lemma settled_updated:
  assumes "distinct (map fst nd)"
  shows "settled nd (fst (update_fields nd attrs []))"
  unfolding settled_def
proof (intro ballI)
  fix kv
  assume mem: "kv \<in> set nd"
  obtain key v where kv: "kv = (key, v)" by (cases kv)
  from assms mem have "map_of nd key = Some v" by (simp add: kv)
  then have "key \<in> set [''order_number'', ''source''] \<or> v = PNone
      \<or> py_eq (getattr (fst (update_fields nd attrs [])) key) v"
    by (simp add: update_fields_getattr [OF assms] py_eq_refl)
  then show "case kv of (key, v) \<Rightarrow>
      key \<in> set [''order_number'', ''source''] \<or> v = PNone
        \<or> py_eq (getattr (fst (update_fields nd attrs [])) key) v"
    by (simp add: kv)
qed

lemma replace_by_id:
  assumes "distinct (map id_v rows)" and "row \<in> set rows" and "id_v row' = id_v row"
  shows "map id_v (map (\<lambda>r. if id_v r = id_v row then row' else r) rows) = map id_v rows"
    and "f row' = f row \<Longrightarrow>
         map f (map (\<lambda>r. if id_v r = id_v row then row' else r) rows) = map f rows"
    and "row' = row \<Longrightarrow> map (\<lambda>r. if id_v r = id_v row then row' else r) rows = rows"
proof -
  have same: "r = row" if "r \<in> set rows" "id_v r = id_v row" for r
    using assms(1,2) that by (meson distinct_map inj_onD)
  show "map id_v (map (\<lambda>r. if id_v r = id_v row then row' else r) rows) = map id_v rows"
    using assms(3) by (simp add: comp_def cong: map_cong)
  show "map f (map (\<lambda>r. if id_v r = id_v row then row' else r) rows) = map f rows"
    if "f row' = f row"
    using that same by (auto simp: comp_def intro!: map_cong)
  show "map (\<lambda>r. if id_v r = id_v row then row' else r) rows = rows" if "row' = row"
    using that same by (auto intro!: map_idI simp: eq_commute [of row])
qed

lemma upsert_result:
  assumes tc: "table_constraints db"
    and res: "create_order_from_webhook now p db = Inr (row1, db1)"
  shows "table_constraints db1 \<and> row1 \<in> set (orders db1)
     \<and> getattr (columns row1) ''order_number'' = PStr (order_number p)
     \<and> settled (map_webhook_to_order now p) (columns row1)"
proof -
  let ?od = "map_webhook_to_order now p"
  let ?key = "\<lambda>row. getattr (columns row) ''order_number''"
  note d = order_data_distinct [of now p]
  from get_order_by_number_cases [OF tc, of "order_number p"] show ?thesis
  proof (elim disjE conjE exE)
    assume look: "get_order_by_number db (order_number p) = Inr None"
      and fresh: "\<forall>row \<in> set (orders db). ?key row \<noteq> PStr (order_number p)"
    from res look have row1: "row1 = \<lparr>id_v = next_id db, columns = ?od\<rparr>"
      and db1: "orders db1 = orders db @ [row1]"
      by (auto simp: create_order_from_webhook_def create_new_order_def Let_def)
    have num: "?key row1 = PStr (order_number p)"
      by (simp add: row1 getattr_def map_of_order_data_order_number)
    from fresh have "?key row1 \<notin> set (map ?key (orders db))"
      unfolding num by auto
    moreover have "id_v row1 \<notin> set (map id_v (orders db))"
      using next_id_fresh [of db] by (simp add: row1)
    ultimately have "table_constraints db1"
      using tc by (simp add: table_constraints_def db1)
    moreover have "settled ?od (columns row1)"
      using settled_created [OF d] by (simp add: row1)
    ultimately show ?thesis using num by (simp add: db1)
  next
    fix existing
    assume look: "get_order_by_number db (order_number p) = Inr (Some existing)"
      and mem: "existing \<in> set (orders db)"
      and key: "?key existing = PStr (order_number p)"
    from res look have u: "update_existing_order existing ?od p db = (row1, db1)"
      by (simp add: create_order_from_webhook_def Let_def)
    note cols = update_existing_order_member [OF mem u]
    have num: "?key row1 = ?key existing"
      by (simp add: cols(2) update_fields_getattr [OF d] map_of_order_data_order_number)
    from u have id1: "id_v row1 = id_v existing"
      and db1: "orders db1 = map (\<lambda>r. if id_v r = id_v existing then row1 else r) (orders db)"
      by (auto simp: update_existing_order_def Let_def split: prod.splits if_splits)
    from tc have di: "distinct (map id_v (orders db))"
      by (simp add: table_constraints_def)
    have "map id_v (orders db1) = map id_v (orders db)"
      unfolding db1 by (rule replace_by_id(1) [OF di mem id1])
    moreover have "map ?key (orders db1) = map ?key (orders db)"
      unfolding db1 by (rule replace_by_id(2) [OF di mem id1 num])
    ultimately have "table_constraints db1"
      using tc by (simp add: table_constraints_def)
    moreover have "settled ?od (columns row1)"
      unfolding cols(2) by (rule settled_updated [OF d])
    ultimately show ?thesis using cols(1) num key by simp
  qed
qed

text \<open>
  A replay is without effect when the payload carries a date of its own (or when the clock
  reads the same at both applications): on a store that meets the constraints of its
  table, the second application returns the same order and the same store, with no new
  event, and the store holds exactly one row with the order number.
\<close>

theorem replay_with_own_date_is_noop:
  assumes tc: "table_constraints db"
    and first: "create_order_from_webhook now p db = Inr (row1, db1)"
    and same: "order_date p \<noteq> None \<or> created_at p \<noteq> None \<or> date p \<noteq> None \<or> now' = now"
  shows "create_order_from_webhook now' p db1 = Inr (row1, db1)
     \<and> filter (\<lambda>row. getattr (columns row) ''order_number'' = PStr (order_number p))
          (orders db1) = [row1]"
proof -
  let ?od = "map_webhook_to_order now p"
  let ?key = "\<lambda>row. getattr (columns row) ''order_number''"
  from upsert_result [OF tc first]
  have tc1: "table_constraints db1" and mem: "row1 \<in> set (orders db1)"
    and key: "?key row1 = PStr (order_number p)" and st: "settled ?od (columns row1)"
    by simp_all
  from tc1 have di: "distinct (map id_v (orders db1))"
    and dk: "distinct (map ?key (orders db1))"
    by (simp_all add: table_constraints_def)
  from get_order_by_number_cases [OF tc1, of "order_number p"] mem key
  obtain row where look: "get_order_by_number db1 (order_number p) = Inr (Some row)"
    and rmem: "row \<in> set (orders db1)" and rkey: "?key row = PStr (order_number p)"
    by auto
  from dk mem rmem key rkey have row: "row = row1"
    by (metis distinct_map inj_onD)
  from look have filt: "filter (\<lambda>r. ?key r = PStr (order_number p)) (orders db1) = [row1]"
    by (auto simp: get_order_by_number_def row split: list.splits)
  from st have "update_fields ?od (columns row1) [] = (columns row1, [])"
    unfolding settled_def by (rule update_fields_settled)
  then have "update_existing_order row1 ?od p db1 = (row1, db1)"
    by (simp add: update_existing_order_def replace_by_id(3) [OF di mem])
  with look filt show ?thesis
    by (simp add: create_order_from_webhook_def order_data_same_clock [OF same] row)
qed

theorem replay_with_own_date_is_noop_witness:
  "\<exists>row1 db1. create_order_from_webhook 100 dated empty_database = Inr (row1, db1)
     \<and> create_order_from_webhook 200 dated db1 = Inr (row1, db1)"
proof -
  obtain row1 db1 where first: "create_order_from_webhook 100 dated empty_database = Inr (row1, db1)"
    by (simp add: upsert_simps dated_def)
  have tc: "table_constraints empty_database"
    by (simp add: table_constraints_def empty_database_def)
  have "order_date dated \<noteq> None \<or> created_at dated \<noteq> None \<or> date dated \<noteq> None
      \<or> (200::nat) = 100"
    by (simp add: dated_def WebhookPayload_def)
  from replay_with_own_date_is_noop [OF tc first this] first show ?thesis
    by blast
qed

text \<open>
  C1 at a payload without a date, \<^verbatim>\<open>{"order_number": "A1"}\<close>, applied to the empty store when
  the clock reads 100 and again when it reads 200. \<^verbatim>\<open>_map_webhook_to_order\<close> fills
  \<^verbatim>\<open>order_date\<close> with \<^verbatim>\<open>datetime.utcnow()\<close> at each application, so the second one finds
  \<^verbatim>\<open>order_date\<close> changed, overwrites it and appends an \<^verbatim>\<open>updated\<close> event.
\<close>

theorem replay_without_date_appends_updated_event:
  "(case create_order_from_webhook 100 (WebhookPayload ''A1'') empty_database of
      Inl e \<Rightarrow> False
    | Inr (row1, db1) \<Rightarrow>
        (case create_order_from_webhook 200 (WebhookPayload ''A1'') db1 of
           Inl e \<Rightarrow> False
         | Inr (row2, db2) \<Rightarrow>
             length (orders db2) = 1
             \<and> getattr (columns row1) ''order_date'' = PDatetime 100
             \<and> getattr (columns row2) ''order_date'' = PDatetime 200
             \<and> map event_type (order_events db1) = [''created'']
             \<and> map event_type (order_events db2) = [''created'', ''updated'']
             \<and> description (last (order_events db2))
                 = [(''order_date'', PDatetime 100, PDatetime 200)]))"
  by (simp add: upsert_simps)

section \<open>Rounding\<close>

text \<open>
  C4 at the payload \<^verbatim>\<open>{"order_number": "A1", "price": 9.999}\<close>: rounded to two decimal
  places the price is \<open>10.0\<close>, and the row that the upsert creates and stores has the
  price \<open>9.999\<close>.
\<close>

theorem webhook_price_stored_unrounded:
  "round_currency (Some (9999 / 1000)) = Some 10
   \<and> (case create_order_from_webhook 100 unrounded_price empty_database of
        Inl e \<Rightarrow> False
      | Inr (row, db) \<Rightarrow>
          getattr (columns row) ''price'' = PFloat (9999 / 1000)
          \<and> map (\<lambda>r. getattr (columns r) ''price'') (orders db) = [PFloat (9999 / 1000)])"
proof -
  have "round_currency (Some (9999 / 1000)) = Some 10"
    by code_simp
  then show ?thesis
    by (simp add: upsert_simps unrounded_price_def)
qed

end
